theory Spec2Isabelle
  imports Complex_Main "HOL-Library.Word" "HOL-Library.Log_Nat"
begin

section \<open>Python values used by the streaming transcription service\<close>

text \<open>
  A Python \<open>str\<close> is a sequence of Unicode code points, and \<open>len\<close> counts code points;
  it is modelled as a list of code points. \<open>lit\<close> turns an ASCII literal into such a list.
  A Python float is modelled by the real number it stands for, \<open>bytes\<close> as a list of
  octets.
\<close>

type_synonym str = "nat list"
type_synonym bytes = "8 word list"

definition lit :: "string \<Rightarrow> str" where
  "lit s = map of_char s"

text \<open>\<open>str.isspace\<close> for one code point: the Unicode white-space characters.\<close>

definition py_isspace :: "nat \<Rightarrow> bool" where
  "py_isspace c =
     (if 9 \<le> c \<and> c \<le> 13 then True
      else if 28 \<le> c \<and> c \<le> 32 then True
      else if c = 133 \<or> c = 160 \<or> c = 5760 then True
      else if 8192 \<le> c \<and> c \<le> 8202 then True
      else if c = 8232 \<or> c = 8233 \<or> c = 8239 \<or> c = 8287 \<or> c = 12288 then True
      else False)"

text \<open>\<open>str.strip()\<close>: drops leading and trailing white space.\<close>

definition strip :: "str \<Rightarrow> str" where
  "strip s = rev (dropWhile py_isspace (rev (dropWhile py_isspace s)))"

text \<open>\<open>str(n)\<close> for an integer: its decimal digits.\<close>

fun digitos :: "nat \<Rightarrow> str" where
  "digitos n = (if n < 10 then [48 + n] else digitos (n div 10) @ [48 + n mod 10])"

declare digitos.simps [simp del]

definition str_int :: "int \<Rightarrow> str" where
  "str_int i = (if i < 0 then 45 # digitos (nat (- i)) else digitos (nat i))"

text \<open>
  \<open>round(x, 1)\<close>: to one decimal, ties to the even neighbour.
\<close>

definition py_round :: "real \<Rightarrow> int" where
  "py_round x =
     (let f = \<lfloor>x\<rfloor>; d = x - of_int f
      in if d < 1 / 2 then f else if 1 / 2 < d then f + 1 else if even f then f else f + 1)"

definition py_round1 :: "real \<Rightarrow> real" where
  "py_round1 x = of_int (py_round (x * 10)) / 10"

subsection \<open>Double-precision arithmetic\<close>

text \<open>
  A Python float is an IEEE 754 double: every arithmetic operation returns the double
  nearest to the exact result, ties going to the even significand. \<open>expoente x\<close> is, for a
  positive \<open>x\<close>, the exponent \<open>e\<close> with \<open>2 ^ e \<le> x < 2 ^ (e + 1)\<close>; \<open>fl x\<close> is the
  double nearest to \<open>x\<close>: a multiple of \<open>2 ^ (e - 52)\<close>, where below \<open>2 ^ (- 1022)\<close> the
  spacing stays \<open>2 ^ (- 1074)\<close> (gradual underflow). So \<open>fl (a + b)\<close>, \<open>fl (a - b)\<close>,
  \<open>fl (a * b)\<close>, \<open>fl (a / b)\<close> are the float operations on doubles \<open>a\<close>, \<open>b\<close>, and \<open>fl 0.9\<close>
  is the double that the text \<open>0.9\<close> denotes. A result beyond the largest double (about
  \<open>1.8e308\<close>), which the interpreter replaces by \<open>inf\<close>, is a real number here: the
  quantities computed below are confidences between 0 and 1 and times in seconds, far
  from that range.
\<close>

definition expoente :: "real \<Rightarrow> int" where
  "expoente x = (if 1 \<le> x then bitlen \<lfloor>x\<rfloor> - 1 else - bitlen (\<lceil>1 / x\<rceil> - 1))"

definition fl :: "real \<Rightarrow> real" where
  "fl x =
     (if x = 0 then 0
      else (let e = max (expoente \<bar>x\<bar>) (- 1022);
                q = 2 powi (e - 52)
            in of_int (py_round (x / q)) * q))"


text \<open>
  A sum of floats accumulated from \<open>0.0\<close> with \<open>+=\<close>, one rounding per addition; the
  built-in \<open>sum\<close> of CPython up to 3.11 adds in the same way (from 3.12 on it compensates
  the rounding errors of the partial sums).
\<close>

definition soma_float :: "real list \<Rightarrow> real" where
  "soma_float xs = foldl (\<lambda>s x. fl (s + x)) 0 xs"

subsection \<open>Exceptions\<close>

text \<open>
  The exception classes that occur: all of them derive from \<open>Exception\<close>;
  \<open>Timeout\<close> derives from \<open>RequestException\<close> (package requests).
  Each carries its message, which \<open>str(e)\<close> returns.
\<close>

datatype excecao =
    WebSocketDisconnect
  | Timeout str
  | RequestException str
  | ValueError str
  | TypeError str
  | ValidationError str
  | RuntimeError str

fun str_exc :: "excecao \<Rightarrow> str" where
  "str_exc WebSocketDisconnect = []"
| "str_exc (Timeout m) = m"
| "str_exc (RequestException m) = m"
| "str_exc (ValueError m) = m"
| "str_exc (TypeError m) = m"
| "str_exc (ValidationError m) = m"
| "str_exc (RuntimeError m) = m"

fun eh_Timeout :: "excecao \<Rightarrow> bool" where
  "eh_Timeout (Timeout m) = True"
| "eh_Timeout e = False"

fun eh_RequestException :: "excecao \<Rightarrow> bool" where
  "eh_RequestException (Timeout m) = True"
| "eh_RequestException (RequestException m) = True"
| "eh_RequestException e = False"

fun eh_WebSocketDisconnect :: "excecao \<Rightarrow> bool" where
  "eh_WebSocketDisconnect WebSocketDisconnect = True"
| "eh_WebSocketDisconnect e = False"

subsection \<open>Format specifications of f-strings\<close>

text \<open>
  \<open>f"{x:spec}"\<close> calls \<open>format(x, spec)\<close>, where \<open>spec\<close> is the literal text between the
  colon and the closing brace. For a float the text must follow the grammar
  \<open>[[fill]align][sign][z][#][0][width][grouping][.precision][type]\<close> with a type among
  \<open>eEfFgGn%\<close>, else \<open>ValueError\<close> is raised; for \<open>None\<close> every non-empty text raises
  \<open>TypeError\<close>. The rendered text only reaches the log, so the model keeps whether the
  formatting succeeds.
\<close>

definition eh_alinhamento :: "nat \<Rightarrow> bool" where
  "eh_alinhamento c = (c = 60 \<or> c = 62 \<or> c = 61 \<or> c = 94)"

definition eh_digito :: "nat \<Rightarrow> bool" where
  "eh_digito c = (48 \<le> c \<and> c \<le> 57)"

fun salta_alinhamento :: "str \<Rightarrow> str" where
  "salta_alinhamento (a # b # r) =
     (if eh_alinhamento b then r else if eh_alinhamento a then b # r else a # b # r)"
| "salta_alinhamento [a] = (if eh_alinhamento a then [] else [a])"
| "salta_alinhamento [] = []"

fun salta_sinal :: "str \<Rightarrow> str" where
  "salta_sinal (c # r) = (if c = 43 \<or> c = 45 \<or> c = 32 then r else c # r)"
| "salta_sinal [] = []"

fun salta_char :: "nat \<Rightarrow> str \<Rightarrow> str" where
  "salta_char ch (c # r) = (if c = ch then r else c # r)"
| "salta_char ch [] = []"

fun tem_agrupamento :: "str \<Rightarrow> bool" where
  "tem_agrupamento (c # r) = (c = 44 \<or> c = 95)"
| "tem_agrupamento [] = False"

fun salta_agrupamento :: "str \<Rightarrow> str" where
  "salta_agrupamento (c # r) = (if c = 44 \<or> c = 95 then r else c # r)"
| "salta_agrupamento [] = []"

text \<open>After the optional grouping: \<open>.precision\<close> needs at least one digit; then at most
  one character, the type, may remain.\<close>

fun precisao_e_tipo :: "bool \<Rightarrow> str \<Rightarrow> bool" where
  "precisao_e_tipo agrup s =
     (let resto = (if s \<noteq> [] \<and> hd s = 46 then dropWhile eh_digito (tl s) else s);
          falta_precisao = (s \<noteq> [] \<and> hd s = 46 \<and> takeWhile eh_digito (tl s) = [])
      in if falta_precisao then False
         else (case resto of
                 [] \<Rightarrow> True
               | [t] \<Rightarrow> if t = 110 then (if agrup then False else True)
                        else (t = 101 \<or> t = 69 \<or> t = 102 \<or> t = 70 \<or> t = 103 \<or> t = 71 \<or> t = 37)
               | t # u # r \<Rightarrow> False))"

definition spec_float_valido :: "str \<Rightarrow> bool" where
  "spec_float_valido s =
     (let s1 = salta_alinhamento s;
          s2 = salta_sinal s1;
          s3 = salta_char 122 s2;
          s4 = salta_char 35 s3;
          s5 = salta_char 48 s4;
          s6 = dropWhile eh_digito s5
      in precisao_e_tipo (tem_agrupamento s6) (salta_agrupamento s6))"

definition py_format :: "real option \<Rightarrow> str \<Rightarrow> excecao + unit" where
  "py_format v spec =
     (case v of
        None \<Rightarrow> if spec = [] then Inr ()
                else Inl (TypeError (lit ''unsupported format string passed to NoneType.__format__''))
      | Some x \<Rightarrow> if spec_float_valido spec then Inr ()
                  else Inl (ValueError (lit ''Invalid format specifier'')))"

text \<open>
  Both the engine and the orchestrator render a confidence for the log with
  \<open>f"{confianca:.2f}"\<close> when it is not \<open>None\<close>, and with the text \<open>N/A\<close> otherwise.
\<close>

definition conf_str :: "real option \<Rightarrow> excecao + unit" where
  "conf_str confianca =
     (case confianca of
        None \<Rightarrow> Inr ()
      | Some c \<Rightarrow> py_format (Some c) (lit ''.2f''))"

section \<open>Transcription engine (motor_stt_vosk.py)\<close>

text \<open>
  The recognizer answers with JSON objects. \<open>resultado\<close> is the parsed object with the
  keys the engine reads (\<open>text\<close>, \<open>partial\<close>, \<open>result\<close>), each possibly absent; a word entry
  is a dictionary from key to number, read with \<open>dict.get(key, default)\<close>.
\<close>

type_synonym palavra = "string \<rightharpoonup> real"

definition dict_get :: "('k \<rightharpoonup> 'v) \<Rightarrow> 'k \<Rightarrow> 'v \<Rightarrow> 'v" where
  "dict_get d k padrao = (case d k of None \<Rightarrow> padrao | Some v \<Rightarrow> v)"

record resultado =
  r_text :: "str option"
  r_partial :: "str option"
  r_result :: "palavra list option"


text \<open>One iteration of the loop of \<open>_calcular_confianca_media\<close> on the pair
  \<open>(soma_confianca, soma_duracao)\<close>: \<open>soma_confianca += confianca * duracao\<close> rounds the
  product and then the sum, \<open>soma_duracao += duracao\<close> rounds the sum.\<close>

definition acumula_palavra :: "palavra \<Rightarrow> real \<times> real \<Rightarrow> real \<times> real" where
  "acumula_palavra p acc =
     (let confianca = dict_get p ''conf'' 0;
          inicio = dict_get p ''start'' 0;
          fim = dict_get p ''end'' 0;
          dur = fl (fim - inicio)
      in if dur > 0 then (fl (fst acc + fl (confianca * dur)), fl (snd acc + dur)) else acc)"

text \<open>The two divisions are float divisions; in the fallback the length of the list is
  converted to a float first.\<close>

definition calcular_confianca_media :: "resultado \<Rightarrow> real option" where
  "calcular_confianca_media r =
     (let palavras_detalhadas = (case r_result r of None \<Rightarrow> [] | Some ps \<Rightarrow> ps)
      in if palavras_detalhadas = [] then None
         else (let somas = fold acumula_palavra palavras_detalhadas (0, 0)
               in if snd somas > 0 then Some (fl (fst somas / snd somas))
                  else Some (fl (soma_float (map (\<lambda>p. dict_get p ''conf'' 0) palavras_detalhadas)
                                 / fl (real (length palavras_detalhadas))))))"

record motor =
  motor_session_id :: str
  bytes_processados :: nat
  transcricoes_parciais :: nat
  transcricoes_finais :: nat

definition novo_motor :: "str \<Rightarrow> motor" where
  "novo_motor sid =
     \<lparr>motor_session_id = sid, bytes_processados = 0,
      transcricoes_parciais = 0, transcricoes_finais = 0\<rparr>"

text \<open>
  What the recognizer does with one frame: \<open>AcceptWaveform\<close> returns true and \<open>Result()\<close>
  gives the object, or it returns false and \<open>PartialResult()\<close> gives the object, or it raises.
\<close>

datatype vosk = Fronteira resultado | SemFronteira resultado | FalhaVosk excecao

definition processar_audio ::
  "motor \<Rightarrow> bytes \<Rightarrow> vosk \<Rightarrow> motor \<times> (excecao + bool \<times> str \<times> real option)" where
  "processar_audio m audio_bytes v =
     (let m1 = m\<lparr>bytes_processados := bytes_processados m + length audio_bytes\<rparr>
      in case v of
           FalhaVosk e \<Rightarrow> (m1, Inl e)
         | Fronteira res \<Rightarrow>
             (let texto = strip (case r_text res of None \<Rightarrow> [] | Some t \<Rightarrow> t);
                  confianca = calcular_confianca_media res
              in if texto \<noteq> [] then
                   (let m2 = m1\<lparr>transcricoes_finais := transcricoes_finais m1 + 1\<rparr>
                    in case conf_str confianca of
                         Inl e \<Rightarrow> (m2, Inl e)
                       | Inr u \<Rightarrow> (m2, Inr (True, texto, confianca)))
                 else (m1, Inr (False, [], None)))
         | SemFronteira res \<Rightarrow>
             (let texto = strip (case r_partial res of None \<Rightarrow> [] | Some t \<Rightarrow> t)
              in if texto \<noteq> [] then
                   (m1\<lparr>transcricoes_parciais := transcricoes_parciais m1 + 1\<rparr>,
                    Inr (False, texto, None))
                 else (m1, Inr (False, [], None))))"

text \<open>
  \<open>finalizar_sessao\<close>: the argument is the object \<open>FinalResult()\<close> gives. Its log line is
  \<open>f"... {confianca:.2f if confianca else 'N/A'}"\<close>: everything after the colon is the
  format specification.
\<close>

definition spec_finalizar :: str where
  "spec_finalizar = lit (''.2f if confianca else '' @ [CHR 0x27] @ ''N/A'' @ [CHR 0x27])"

definition finalizar_sessao :: "motor \<Rightarrow> resultado \<Rightarrow> excecao + (str \<times> real option) option" where
  "finalizar_sessao m res =
     (let texto = strip (case r_text res of None \<Rightarrow> [] | Some t \<Rightarrow> t);
          confianca = calcular_confianca_media res
      in if texto \<noteq> [] then
           (case py_format confianca spec_finalizar of
              Inl e \<Rightarrow> Inl e
            | Inr u \<Rightarrow> Inr (Some (texto, confianca)))
         else Inr None)"

section \<open>Configuration (configuracao.py)\<close>

text \<open>The settings the session subsystem reads; they come from the environment.\<close>

record configuracao =
  URL_SERVICO_GLOSSA :: str
  TIMEOUT_GLOSSA :: int
  INTERVALO_EMISSAO_PARCIAL :: real

definition VERSAO_SERVICO :: str where
  "VERSAO_SERVICO = lit ''1.0.0''"

section \<open>Message schema (esquema_mensagens.py)\<close>

datatype json =
    JObj "(str \<times> json) list"
  | JArr "json list"
  | JStr str
  | JNum real
  | JBool bool
  | JNull

record resultado_despacho =
  target_url :: str
  request_sent :: bool
  response_status :: "int option"
  response_body :: "(str \<times> json) list option"
  duration_ms :: "real option"
  error :: "str option"

text \<open>
  \<open>ResultadoDespachoGlossa(...)\<close> is a pydantic model and validates its arguments:
  \<open>response_body\<close> is declared \<open>Optional[dict]\<close>, so \<open>None\<close> (also what JSON \<open>null\<close> parses
  to) and a dictionary are accepted and every other parsed JSON value raises a validation
  error (a subclass of \<open>ValueError\<close>). The other fields receive values of their declared
  types. The schema classes configure \<open>json_schema_extra\<close>, the key of pydantic 2, whose
  rule this is; pydantic 1 differs only on values that \<open>dict(v)\<close> converts, such as an empty
  list.
\<close>

definition valida_response_body :: "json option \<Rightarrow> excecao + (str \<times> json) list option" where
  "valida_response_body b =
     (case b of
        None \<Rightarrow> Inr None
      | Some JNull \<Rightarrow> Inr None
      | Some (JObj kv) \<Rightarrow> Inr (Some kv)
      | Some v \<Rightarrow> Inl (ValidationError (lit ''response_body: Input should be a valid dictionary'')))"

definition ResultadoDespachoGlossa ::
  "str \<Rightarrow> bool \<Rightarrow> int option \<Rightarrow> json option \<Rightarrow> real option \<Rightarrow> str option
     \<Rightarrow> excecao + resultado_despacho" where
  "ResultadoDespachoGlossa url sent status body dur err =
     (case valida_response_body body of
        Inl e \<Rightarrow> Inl e
      | Inr b \<Rightarrow> Inr \<lparr>target_url = url, request_sent = sent, response_status = status,
                      response_body = b, duration_ms = dur, error = err\<rparr>)"

text \<open>The four protocol messages (session id and timestamp left out of the payloads).\<close>

datatype mensagem =
    SessaoIniciada str
  | TranscricaoParcial str "real option"
  | TranscricaoFinal str "real option" resultado_despacho
  | Erro str str

text \<open>\<open>confidence\<close> of the partial and final messages is declared with \<open>ge=0.0, le=1.0\<close>.\<close>

definition valida_confidence :: "real option \<Rightarrow> excecao + real option" where
  "valida_confidence c =
     (case c of
        None \<Rightarrow> Inr None
      | Some x \<Rightarrow> if 0 \<le> x \<and> x \<le> 1 then Inr (Some x)
                  else Inl (ValidationError (lit ''confidence: out of range'')))"

definition MensagemTranscricaoParcial :: "str \<Rightarrow> real option \<Rightarrow> excecao + mensagem" where
  "MensagemTranscricaoParcial texto c =
     (case valida_confidence c of Inl e \<Rightarrow> Inl e | Inr c' \<Rightarrow> Inr (TranscricaoParcial texto c'))"

definition MensagemTranscricaoFinal ::
  "str \<Rightarrow> real option \<Rightarrow> resultado_despacho \<Rightarrow> excecao + mensagem" where
  "MensagemTranscricaoFinal texto c d =
     (case valida_confidence c of Inl e \<Rightarrow> Inl e | Inr c' \<Rightarrow> Inr (TranscricaoFinal texto c' d))"

section \<open>Dispatch orchestrator (orquestrador_envio.py)\<close>

record orquestrador =
  session_id :: str
  url_glossa :: str
  timeout :: int
  total_envios :: nat
  envios_sucesso :: nat
  envios_falha :: nat
  latencia_total_ms :: real

definition novo_orquestrador :: "configuracao \<Rightarrow> str \<Rightarrow> orquestrador" where
  "novo_orquestrador cfg sid =
     \<lparr>session_id = sid, url_glossa = URL_SERVICO_GLOSSA cfg, timeout = TIMEOUT_GLOSSA cfg,
      total_envios = 0, envios_sucesso = 0, envios_falha = 0, latencia_total_ms = 0\<rparr>"

text \<open>
  \<open>deve_enviar\<close>: the three filters in the order of the source. Its debug lines format the
  text as it is and the confidence, a float there, with \<open>.2f\<close>; they cannot raise.
\<close>

definition deve_enviar :: "str \<Rightarrow> real option \<Rightarrow> bool" where
  "deve_enviar texto confianca =
     (if texto = [] \<or> strip texto = [] then False
      else if length (strip texto) < 3 then False
      else (case confianca of
              None \<Rightarrow> True
            | Some c \<Rightarrow> if c < 0.3 then False else True))"

text \<open>
  The downstream service and the clock, as one dispatch call sees them: the reading of
  \<open>time.perf_counter()\<close> before the request, the reading after it, and what
  \<open>requests.post\<close> does (a response, or an exception).
\<close>

record resposta =
  status_code :: int
  corpo_json :: "excecao + json"
  corpo_texto :: str

datatype http = Responde resposta | Levanta excecao

record rede =
  t_inicio :: real
  t_fim :: real
  post :: http

record pedido =
  p_url :: str
  p_text :: str
  p_session_id :: str
  p_confidence :: "real option"
  p_source :: str
  p_service_version :: str
  p_timeout :: int

definition msg_filtrada :: str where
  "msg_filtrada = lit ''Transcri'' @ [231, 227] @ lit ''o filtrada (texto muito curto ou confian''
                  @ [231] @ lit ''a baixa)''"

definition msg_erro_http :: "int \<Rightarrow> str" where
  "msg_erro_http st = lit ''Servi'' @ [231] @ lit ''o de glossa retornou erro HTTP '' @ str_int st"

definition msg_timeout :: "int \<Rightarrow> str" where
  "msg_timeout t = lit ''Timeout ao contatar servi'' @ [231] @ lit ''o de glossa (>''
                   @ str_int t @ lit ''s)''"

definition msg_erro_rede :: "excecao \<Rightarrow> str" where
  "msg_erro_rede e = lit ''Erro de rede ao contatar servi'' @ [231] @ lit ''o de glossa: ''
                     @ str_exc e"

definition msg_erro_inesperado :: "excecao \<Rightarrow> str" where
  "msg_erro_inesperado e = lit ''Erro inesperado ao enviar para glossa: '' @ str_exc e"

text \<open>
  The body of the \<open>try\<close> block of \<open>enviar_para_glossa\<close>: the request, the accumulation of
  the latency, the classification of the status, the log line with \<open>{duracao_ms:.1f}\<close>, the
  construction of the outcome. The updated orchestrator is returned with the outcome or
  with the exception that leaves the block.
\<close>

definition tentativa_envio :: "orquestrador \<Rightarrow> rede \<Rightarrow> orquestrador \<times> (excecao + resultado_despacho)" where
  "tentativa_envio o1 n =
     (case post n of
        Levanta e \<Rightarrow> (o1, Inl e)
      | Responde response \<Rightarrow>
          (let duracao_ms = (t_fim n - t_inicio n) * 1000;
               o2 = o1\<lparr>latencia_total_ms := latencia_total_ms o1 + duracao_ms\<rparr>
           in if 200 \<le> status_code response \<and> status_code response < 300 then
                (let o3 = o2\<lparr>envios_sucesso := envios_sucesso o2 + 1\<rparr>;
                     body = (case corpo_json response of
                               Inr j \<Rightarrow> j
                             | Inl e \<Rightarrow> JObj [(lit ''raw'', JStr (take 200 (corpo_texto response)))])
                 in case py_format (Some duracao_ms) (lit ''.1f'') of
                      Inl e \<Rightarrow> (o3, Inl e)
                    | Inr u \<Rightarrow>
                        (o3, ResultadoDespachoGlossa (url_glossa o1) True
                               (Some (status_code response)) (Some body) (Some duracao_ms) None))
              else
                (let o3 = o2\<lparr>envios_falha := envios_falha o2 + 1\<rparr>;
                     erro_msg = msg_erro_http (status_code response)
                 in case py_format (Some duracao_ms) (lit ''.1f'') of
                      Inl e \<Rightarrow> (o3, Inl e)
                    | Inr u \<Rightarrow>
                        (o3, ResultadoDespachoGlossa (url_glossa o1) True
                               (Some (status_code response))
                               (Some (JObj [(lit ''error'', JStr (take 200 (corpo_texto response)))]))
                               (Some duracao_ms) (Some erro_msg)))))"

text \<open>
  \<open>enviar_para_glossa\<close> returns the updated orchestrator, the value returned or the
  exception raised, and the requests issued on the network during the call.
\<close>

definition enviar_para_glossa ::
  "orquestrador \<Rightarrow> str \<Rightarrow> real option \<Rightarrow> rede
     \<Rightarrow> orquestrador \<times> (excecao + resultado_despacho) \<times> pedido list" where
  "enviar_para_glossa o0 texto confianca n =
     (let o1 = o0\<lparr>total_envios := total_envios o0 + 1\<rparr>
      in if \<not> deve_enviar texto confianca then
           (o1, ResultadoDespachoGlossa (url_glossa o1) False None None None (Some msg_filtrada), [])
         else
           (let payload = \<lparr>p_url = url_glossa o1, p_text = texto, p_session_id = session_id o1,
                           p_confidence = confianca, p_source = lit ''stt_microservice'',
                           p_service_version = VERSAO_SERVICO, p_timeout = timeout o1\<rparr>
            in case conf_str confianca of
                 Inl e \<Rightarrow> (o1, Inl e, [])
               | Inr u \<Rightarrow>
                   (case tentativa_envio o1 n of
                      (o2, Inr r) \<Rightarrow> (o2, Inr r, [payload])
                    | (o2, Inl e) \<Rightarrow>
                        (let o3 = o2\<lparr>envios_falha := envios_falha o2 + 1\<rparr>
                         in if eh_Timeout e then
                              (o3, ResultadoDespachoGlossa (url_glossa o1) True None None
                                     (Some ((t_fim n - t_inicio n) * 1000))
                                     (Some (msg_timeout (timeout o1))), [payload])
                            else if eh_RequestException e then
                              (o3, ResultadoDespachoGlossa (url_glossa o1) False None None
                                     (Some ((t_fim n - t_inicio n) * 1000))
                                     (Some (msg_erro_rede e)), [payload])
                            else
                              (o3, ResultadoDespachoGlossa (url_glossa o1) False None None None
                                     (Some (msg_erro_inesperado e)), [payload])))))"

record estatisticas =
  e_total_envios :: nat
  e_envios_sucesso :: nat
  e_envios_falha :: nat
  taxa_sucesso_pct :: real
  latencia_media_ms :: real

definition obter_estatisticas :: "orquestrador \<Rightarrow> estatisticas" where
  "obter_estatisticas orq =
     (let taxa_sucesso = (if total_envios orq > 0
                          then real (envios_sucesso orq) / real (total_envios orq) * 100 else 0);
          latencia_media = (if envios_sucesso orq > 0
                            then latencia_total_ms orq / real (envios_sucesso orq) else 0)
      in \<lparr>e_total_envios = total_envios orq, e_envios_sucesso = envios_sucesso orq,
          e_envios_falha = envios_falha orq, taxa_sucesso_pct = py_round1 taxa_sucesso,
          latencia_media_ms = py_round1 latencia_media\<rparr>)"

section \<open>Session gateway (gateway_comunicacao.py)\<close>

text \<open>
  The handler \<open>websocket_stt\<close> talks to its environment: the channel, the recognizer, the
  clock and the downstream service. One pass of the receive loop sees what
  \<open>receive_bytes\<close> does (a frame, or an exception such as the disconnect), what the
  recognizer does with the frame, the reading of \<open>time.time()\<close>, the downstream behaviour
  for a dispatch, and what \<open>send_json\<close> does if a message is sent (\<open>None\<close>: the message is
  sent; an exception: it is not).
\<close>

datatype recepcao = Recebe bytes | FalhaRecepcao excecao

record iteracao =
  recebido :: recepcao
  reconhecedor :: vosk
  agora :: real
  rede_envio :: rede
  envio :: "excecao option"

record sessao =
  motor_stt :: motor
  orq :: orquestrador
  ultima_emissao_parcial :: real
  enviadas :: "mensagem list"
  pedidos :: "pedido list"

text \<open>One pass of the \<open>while True\<close> loop: the session after it, and the exception that
  leaves the loop, if any.\<close>

definition passo_laco :: "configuracao \<Rightarrow> iteracao \<Rightarrow> sessao \<Rightarrow> sessao \<times> excecao option" where
  "passo_laco cfg it s =
     (case recebido it of
        FalhaRecepcao e \<Rightarrow> (s, Some e)
      | Recebe audio_bytes \<Rightarrow>
          if audio_bytes = [] then (s, None)
          else
            (case processar_audio (motor_stt s) audio_bytes (reconhecedor it) of
               (m1, Inl e) \<Rightarrow> (s\<lparr>motor_stt := m1\<rparr>, Some e)
             | (m1, Inr (is_final, texto, confianca)) \<Rightarrow>
                 (let s1 = s\<lparr>motor_stt := m1\<rparr>
                  in if is_final \<and> texto \<noteq> [] then
                       (case enviar_para_glossa (orq s1) texto confianca (rede_envio it) of
                          (o1, Inl e, ps) \<Rightarrow> (s1\<lparr>orq := o1, pedidos := pedidos s1 @ ps\<rparr>, Some e)
                        | (o1, Inr resultado_dispatch, ps) \<Rightarrow>
                            (let s2 = s1\<lparr>orq := o1, pedidos := pedidos s1 @ ps\<rparr>
                             in case MensagemTranscricaoFinal texto confianca resultado_dispatch of
                                  Inl e \<Rightarrow> (s2, Some e)
                                | Inr mensagem_final \<Rightarrow>
                                    (case envio it of
                                       Some e \<Rightarrow> (s2, Some e)
                                     | None \<Rightarrow>
                                         (s2\<lparr>enviadas := enviadas s2 @ [mensagem_final]\<rparr>, None))))
                     else if \<not> is_final \<and> texto \<noteq> [] then
                       (if agora it - ultima_emissao_parcial s1 \<ge> INTERVALO_EMISSAO_PARCIAL cfg then
                          (case MensagemTranscricaoParcial texto confianca of
                             Inl e \<Rightarrow> (s1, Some e)
                           | Inr mensagem_parcial \<Rightarrow>
                               (case envio it of
                                  Some e \<Rightarrow> (s1, Some e)
                                | None \<Rightarrow>
                                    (s1\<lparr>enviadas := enviadas s1 @ [mensagem_parcial],
                                        ultima_emissao_parcial := agora it\<rparr>, None)))
                        else (s1, None))
                     else (s1, None))))"

text \<open>
  The loop has no exit of its own: it is left by an exception only. A script of passes that
  ends without one stands for the peer closing the connection, which \<open>receive_bytes\<close>
  reports as \<open>WebSocketDisconnect\<close>.
\<close>

fun laco :: "configuracao \<Rightarrow> iteracao list \<Rightarrow> sessao \<Rightarrow> sessao \<times> excecao" where
  "laco cfg [] s = (s, WebSocketDisconnect)"
| "laco cfg (it # its) s =
     (case passo_laco cfg it s of
        (s', Some e) \<Rightarrow> (s', e)
      | (s', None) \<Rightarrow> laco cfg its s')"

text \<open>
  The environment of one session: whether the two constructors raise, what \<open>send_json\<close>
  does for the \<open>session_started\<close> message and for the error message, the passes of the
  loop, and for the teardown the object \<open>FinalResult()\<close> gives and the downstream behaviour.
\<close>

record ambiente =
  constroi_motor :: "excecao option"
  constroi_orquestrador :: "excecao option"
  envio_inicio :: "excecao option"
  iteracoes :: "iteracao list"
  envio_erro :: "excecao option"
  resultado_final :: resultado
  rede_final :: rede

record fim_try =
  ft_motor :: "motor option"
  ft_orq :: "orquestrador option"
  ft_enviadas :: "mensagem list"
  ft_pedidos :: "pedido list"
  ft_excecao :: excecao

text \<open>The \<open>try\<close> block: it always ends with an exception.\<close>

definition bloco_try :: "configuracao \<Rightarrow> str \<Rightarrow> ambiente \<Rightarrow> fim_try" where
  "bloco_try cfg sid amb =
     (case constroi_motor amb of
        Some e \<Rightarrow> \<lparr>ft_motor = None, ft_orq = None, ft_enviadas = [], ft_pedidos = [],
                    ft_excecao = e\<rparr>
      | None \<Rightarrow>
          (case constroi_orquestrador amb of
             Some e \<Rightarrow> \<lparr>ft_motor = Some (novo_motor sid), ft_orq = None, ft_enviadas = [],
                         ft_pedidos = [], ft_excecao = e\<rparr>
           | None \<Rightarrow>
               (case envio_inicio amb of
                  Some e \<Rightarrow> \<lparr>ft_motor = Some (novo_motor sid),
                              ft_orq = Some (novo_orquestrador cfg sid), ft_enviadas = [],
                              ft_pedidos = [], ft_excecao = e\<rparr>
                | None \<Rightarrow>
                    (case laco cfg (iteracoes amb)
                            \<lparr>motor_stt = novo_motor sid, orq = novo_orquestrador cfg sid,
                             ultima_emissao_parcial = 0,
                             enviadas = [SessaoIniciada VERSAO_SERVICO], pedidos = []\<rparr> of
                       (s, e) \<Rightarrow> \<lparr>ft_motor = Some (motor_stt s), ft_orq = Some (orq s),
                                   ft_enviadas = enviadas s, ft_pedidos = pedidos s,
                                   ft_excecao = e\<rparr>))))"

text \<open>The \<open>except\<close> clauses: a disconnect is only logged; for every other exception an
  error message is attempted, and a failure of that send is swallowed.\<close>

definition bloco_except :: "ambiente \<Rightarrow> fim_try \<Rightarrow> mensagem list" where
  "bloco_except amb ft =
     (if eh_WebSocketDisconnect (ft_excecao ft) then ft_enviadas ft
      else (case envio_erro amb of
              Some e \<Rightarrow> ft_enviadas ft
            | None \<Rightarrow> ft_enviadas ft @ [Erro (lit ''PROCESSING_ERROR'') (str_exc (ft_excecao ft))]))"

record saida =
  mensagens :: "mensagem list"
  motor_fim :: "motor option"
  orq_fim :: "orquestrador option"
  pedidos_fim :: "pedido list"
  propagada :: "excecao option"

text \<open>The \<open>finally\<close> block, and with it the whole handler: \<open>propagada\<close> is the exception that
  leaves the handler, if any.\<close>

definition websocket_stt :: "configuracao \<Rightarrow> str \<Rightarrow> ambiente \<Rightarrow> saida" where
  "websocket_stt cfg sid amb =
     (let ft = bloco_try cfg sid amb;
          ms = bloco_except amb ft
      in case ft_motor ft of
           None \<Rightarrow> \<lparr>mensagens = ms, motor_fim = None, orq_fim = ft_orq ft,
                    pedidos_fim = ft_pedidos ft, propagada = None\<rparr>
         | Some m \<Rightarrow>
             (case finalizar_sessao m (resultado_final amb) of
                Inl e \<Rightarrow> \<lparr>mensagens = ms, motor_fim = Some m, orq_fim = ft_orq ft,
                           pedidos_fim = ft_pedidos ft, propagada = Some e\<rparr>
              | Inr None \<Rightarrow> \<lparr>mensagens = ms, motor_fim = Some m, orq_fim = ft_orq ft,
                              pedidos_fim = ft_pedidos ft, propagada = None\<rparr>
              | Inr (Some (texto_final, confianca_final)) \<Rightarrow>
                  (case ft_orq ft of
                     None \<Rightarrow> \<lparr>mensagens = ms, motor_fim = Some m, orq_fim = None,
                              pedidos_fim = ft_pedidos ft, propagada = None\<rparr>
                   | Some o0 \<Rightarrow>
                       (case enviar_para_glossa o0 texto_final confianca_final (rede_final amb) of
                          (o1, r, ps) \<Rightarrow>
                            \<lparr>mensagens = ms, motor_fim = Some m, orq_fim = Some o1,
                             pedidos_fim = ft_pedidos ft @ ps,
                             propagada = (case r of Inl e \<Rightarrow> Some e | Inr d \<Rightarrow> None)\<rparr>))))"

section \<open>Observations on runs, and sample inputs\<close>

text \<open>A sequence of dispatch calls on one orchestrator: each call with its text, its
  confidence and the behaviour of the network during it.\<close>

definition sequencia_envios ::
  "orquestrador \<Rightarrow> (str \<times> real option \<times> rede) list \<Rightarrow> orquestrador" where
  "sequencia_envios o0 cs = fold (\<lambda>(t, c, n) o1. fst (enviar_para_glossa o1 t c n)) cs o0"

text \<open>The request \<open>enviar_para_glossa\<close> posts.\<close>

definition pedido_de :: "orquestrador \<Rightarrow> str \<Rightarrow> real option \<Rightarrow> pedido" where
  "pedido_de o0 texto confianca =
     \<lparr>p_url = url_glossa o0, p_text = texto, p_session_id = session_id o0,
      p_confidence = confianca, p_source = lit ''stt_microservice'',
      p_service_version = VERSAO_SERVICO, p_timeout = timeout o0\<rparr>"

fun eh_sessao_iniciada :: "mensagem \<Rightarrow> bool" where
  "eh_sessao_iniciada (SessaoIniciada v) = True"
| "eh_sessao_iniciada m = False"

fun eh_parcial :: "mensagem \<Rightarrow> bool" where
  "eh_parcial (TranscricaoParcial t c) = True"
| "eh_parcial m = False"

fun eh_final :: "mensagem \<Rightarrow> bool" where
  "eh_final (TranscricaoFinal t c d) = True"
| "eh_final m = False"

fun eh_erro :: "mensagem \<Rightarrow> bool" where
  "eh_erro (Erro c m) = True"
| "eh_erro m = False"

text \<open>Whether a pass of the loop sends a partial message, and the clock readings of the
  passes that do, in order.\<close>

definition emite_parcial :: "configuracao \<Rightarrow> iteracao \<Rightarrow> sessao \<Rightarrow> bool" where
  "emite_parcial cfg it s =
     (case passo_laco cfg it s of
        (s', x) \<Rightarrow> enviadas s' \<noteq> enviadas s \<and> eh_parcial (last (enviadas s')))"

fun tempos_parciais :: "configuracao \<Rightarrow> iteracao list \<Rightarrow> sessao \<Rightarrow> real list" where
  "tempos_parciais cfg [] s = []"
| "tempos_parciais cfg (it # its) s =
     (if emite_parcial cfg it s then [agora it] else [])
     @ (case passo_laco cfg it s of
          (s', Some e) \<Rightarrow> []
        | (s', None) \<Rightarrow> tempos_parciais cfg its s')"

text \<open>Neighbours of a list of instants are at least \<open>d\<close> apart.\<close>

fun espacados :: "real \<Rightarrow> real list \<Rightarrow> bool" where
  "espacados d (a # b # r) = (d \<le> b - a \<and> espacados d (b # r))"
| "espacados d [a] = True"
| "espacados d [] = True"

text \<open>Sample inputs. The numbers of a recognizer result are doubles: \<open>fl 0.9\<close> is what
  the JSON text \<open>0.9\<close> parses to.\<close>

definition palavras_exemplo :: "palavra list" where
  "palavras_exemplo =
     [[''conf'' \<mapsto> fl 0.9, ''start'' \<mapsto> fl 0.0, ''end'' \<mapsto> fl 0.5],
      [''conf'' \<mapsto> fl 0.5, ''start'' \<mapsto> fl 0.5, ''end'' \<mapsto> fl 1.0]]"



definition cfg_exemplo :: configuracao where
  "cfg_exemplo =
     \<lparr>URL_SERVICO_GLOSSA = lit ''http://localhost:9000/traduzir'', TIMEOUT_GLOSSA = 10,
      INTERVALO_EMISSAO_PARCIAL = 0.5\<rparr>"

definition orq_exemplo :: orquestrador where
  "orq_exemplo = novo_orquestrador cfg_exemplo (lit ''s1'')"

definition rede_exemplo :: "real \<Rightarrow> http \<Rightarrow> rede" where
  "rede_exemplo t h = \<lparr>t_inicio = 0, t_fim = t, post = h\<rparr>"

definition resposta_exemplo :: "int \<Rightarrow> json \<Rightarrow> resposta" where
  "resposta_exemplo st j = \<lparr>status_code = st, corpo_json = Inr j, corpo_texto = []\<rparr>"

definition resultado_vazio :: resultado where
  "resultado_vazio = \<lparr>r_text = Some [], r_partial = None, r_result = None\<rparr>"

definition resultado_ola_mundo :: resultado where
  "resultado_ola_mundo =
     \<lparr>r_text = Some (lit ''ola mundo''), r_partial = None, r_result = Some palavras_exemplo\<rparr>"

definition quadro_parcial :: "real \<Rightarrow> iteracao" where
  "quadro_parcial t =
     \<lparr>recebido = Recebe [0, 1],
      reconhecedor = SemFronteira \<lparr>r_text = None, r_partial = Some (lit ''ola''), r_result = None\<rparr>,
      agora = t, rede_envio = rede_exemplo 0.05 (Levanta (Timeout [])), envio = None\<rparr>"

definition quadro_final :: "real \<Rightarrow> iteracao" where
  "quadro_final t =
     \<lparr>recebido = Recebe [0, 1], reconhecedor = Fronteira resultado_ola_mundo,
      agora = t, rede_envio = rede_exemplo 0.05 (Responde (resposta_exemplo 200 (JObj []))),
      envio = None\<rparr>"

definition sessao_exemplo :: sessao where
  "sessao_exemplo =
     \<lparr>motor_stt = novo_motor (lit ''s1''), orq = orq_exemplo, ultima_emissao_parcial = 0,
      enviadas = [SessaoIniciada VERSAO_SERVICO], pedidos = []\<rparr>"

definition amb_exemplo :: "excecao option \<Rightarrow> iteracao list \<Rightarrow> ambiente" where
  "amb_exemplo falha its =
     \<lparr>constroi_motor = falha, constroi_orquestrador = None, envio_inicio = None,
      iteracoes = its, envio_erro = None, resultado_final = resultado_vazio,
      rede_final = rede_exemplo 0.05 (Levanta (Timeout []))\<rparr>"

definition amb_desconexao :: ambiente where
  "amb_desconexao =
     (amb_exemplo None [])\<lparr>resultado_final := resultado_ola_mundo,
        rede_final := rede_exemplo 0.05 (Responde (resposta_exemplo 200 (JObj [])))\<rparr>"

definition roteiro_exemplo :: "iteracao list" where
  "roteiro_exemplo =
     [quadro_parcial 100, quadro_parcial 100.05, quadro_parcial 100.6, quadro_final 100.7]"

section \<open>Properties of the engine\<close>

lemma expoente_inf: "0 < x \<Longrightarrow> 2 powi expoente x \<le> x"
proof (cases "1 \<le> x")
  case True
  then have p: "0 < \<lfloor>x\<rfloor>" by simp
  from bitlen_bounds [OF p] have "(2::int) ^ nat (bitlen \<lfloor>x\<rfloor> - 1) \<le> \<lfloor>x\<rfloor>" by simp
  then have "real_of_int ((2::int) ^ nat (bitlen \<lfloor>x\<rfloor> - 1)) \<le> real_of_int \<lfloor>x\<rfloor>"
    by (simp only: of_int_le_iff)
  also have "real_of_int \<lfloor>x\<rfloor> \<le> x" by simp
  finally have "(2::real) ^ nat (bitlen \<lfloor>x\<rfloor> - 1) \<le> x" by simp
  moreover have "1 \<le> bitlen \<lfloor>x\<rfloor>" using p by (simp add: bitlen_alt_def)
  ultimately show ?thesis using True by (simp add: expoente_def power_int_def)
next
  case False
  assume x: "0 < x"
  with False have x1: "x < 1" by simp
  let ?n = "\<lceil>1 / x\<rceil> - 1"
  have "1 < 1 / x" using x x1 by simp
  then have n1: "0 < ?n" by linarith
  have le: "1 / x \<le> real_of_int (?n + 1)" by simp
  from bitlen_bounds [OF n1] have "?n < 2 ^ nat (bitlen ?n)" by simp
  then have "?n + 1 \<le> 2 ^ nat (bitlen ?n)" by simp
  then have "real_of_int (?n + 1) \<le> real_of_int (2 ^ nat (bitlen ?n))" by (simp only: of_int_le_iff)
  with le have "1 / x \<le> real_of_int (2 ^ nat (bitlen ?n))" by linarith
  then have "1 / x \<le> 2 ^ nat (bitlen ?n)" by simp
  then have "1 / 2 ^ nat (bitlen ?n) \<le> x" using x
    by (simp add: field_simps)
  moreover have "0 \<le> bitlen ?n" by (rule bitlen_nonneg)
  moreover have "bitlen ?n \<noteq> 0" using n1 by (simp add: bitlen_eq_zero_iff)
  ultimately show ?thesis using False
    by (simp add: expoente_def power_int_def inverse_eq_divide power_divide)
qed

lemma expoente_sup: "0 < x \<Longrightarrow> x < 2 powi (expoente x + 1)"
proof (cases "1 \<le> x")
  case True
  then have p: "0 < \<lfloor>x\<rfloor>" by simp
  from bitlen_bounds [OF p] have "\<lfloor>x\<rfloor> < (2::int) ^ nat (bitlen \<lfloor>x\<rfloor>)" by simp
  then have "\<lfloor>x\<rfloor> + 1 \<le> (2::int) ^ nat (bitlen \<lfloor>x\<rfloor>)" by simp
  then have "real_of_int (\<lfloor>x\<rfloor> + 1) \<le> real_of_int ((2::int) ^ nat (bitlen \<lfloor>x\<rfloor>))"
    by (simp only: of_int_le_iff)
  moreover have "x < real_of_int (\<lfloor>x\<rfloor> + 1)" by simp
  ultimately have "x < real_of_int ((2::int) ^ nat (bitlen \<lfloor>x\<rfloor>))" by linarith
  then have "x < (2::real) ^ nat (bitlen \<lfloor>x\<rfloor>)" by simp
  moreover have "1 \<le> bitlen \<lfloor>x\<rfloor>" using p by (simp add: bitlen_alt_def)
  ultimately show ?thesis using True by (simp add: expoente_def power_int_def)
next
  case False
  assume x: "0 < x"
  with False have x1: "x < 1" by simp
  let ?n = "\<lceil>1 / x\<rceil> - 1"
  have "1 < 1 / x" using x x1 by simp
  then have n1: "0 < ?n" by linarith
  have lt: "real_of_int ?n < 1 / x" by simp linarith
  have b1: "1 \<le> bitlen ?n" using n1 by (simp add: bitlen_alt_def)
  from bitlen_bounds [OF n1] have "2 ^ nat (bitlen ?n - 1) \<le> ?n" by simp
  then have "real_of_int (2 ^ nat (bitlen ?n - 1)) \<le> real_of_int ?n" by (simp only: of_int_le_iff)
  with lt have "real_of_int (2 ^ nat (bitlen ?n - 1)) < 1 / x" by linarith
  then have "2 ^ nat (bitlen ?n - 1) < 1 / x" by simp
  then have "x < 1 / 2 ^ nat (bitlen ?n - 1)" using x
    by (simp add: field_simps)
  then show ?thesis using False b1
    by (simp add: expoente_def power_int_def inverse_eq_divide power_divide)
qed


lemma expoente_eq:
  assumes x: "0 < x" and lo: "2 powi e \<le> x" and hi: "x < 2 powi (e + 1)"
  shows "expoente x = e"
proof (rule antisym)
  show "expoente x \<le> e"
  proof (rule ccontr)
    assume "\<not> expoente x \<le> e"
    then have "e + 1 \<le> expoente x" by simp
    then have "(2::real) powi (e + 1) \<le> 2 powi expoente x"
      by (rule power_int_increasing) simp
    with expoente_inf [OF x] hi show False by linarith
  qed
  show "e \<le> expoente x"
  proof (rule ccontr)
    assume "\<not> e \<le> expoente x"
    then have "expoente x + 1 \<le> e" by simp
    then have "(2::real) powi (expoente x + 1) \<le> 2 powi e"
      by (rule power_int_increasing) simp
    with expoente_sup [OF x] lo show False by linarith
  qed
qed

lemma fl_eval:
  "0 < x \<Longrightarrow> 2 powi e \<le> x \<Longrightarrow> x < 2 powi (e + 1) \<Longrightarrow> - 1022 \<le> e \<Longrightarrow>
   fl x = of_int (py_round (x / 2 powi (e - 52))) * 2 powi (e - 52)"
  by (simp add: fl_def expoente_eq max_def Let_def)



lemma py_round_floor: "\<lfloor>y\<rfloor> \<le> py_round y"
  by (simp add: py_round_def Let_def)

lemma py_round_int: "py_round (of_int n) = n"
  by (simp add: py_round_def)

lemma fl_nonneg: "0 \<le> x \<Longrightarrow> 0 \<le> fl x"
proof -
  assume x: "0 \<le> x"
  have "0 \<le> py_round (x / q)" if "0 < q" for q :: real
  proof -
    have "0 \<le> x / q" using x that by simp
    then have "0 \<le> \<lfloor>x / q\<rfloor>" by simp
    then show ?thesis using py_round_floor [of "x / q"] by linarith
  qed
  then show ?thesis by (simp add: fl_def Let_def)
qed









lemma fl_07: "fl 0.7 = 3152519739159347 / 4503599627370496"
  by code_simp

lemma calcular_exemplo:
  "calcular_confianca_media \<lparr>r_text = t, r_partial = q, r_result = Some palavras_exemplo\<rparr>
     = Some (fl 0.7)"
  by code_simp




subsection \<open>Formatting of the confidence\<close>

lemma spec_2f_valido: "spec_float_valido (lit ''.2f'')"
  by (simp add: spec_float_valido_def lit_def eh_alinhamento_def eh_digito_def)

lemma spec_finalizar_invalido: "\<not> spec_float_valido spec_finalizar"
  by (simp add: spec_float_valido_def spec_finalizar_def lit_def eh_alinhamento_def eh_digito_def)

lemma spec_finalizar_ne: "spec_finalizar \<noteq> []"
  by (simp add: spec_finalizar_def lit_def)

lemma py_format_2f: "py_format (Some c) (lit ''.2f'') = Inr ()"
  by (simp add: py_format_def spec_2f_valido)

lemma py_format_1f: "py_format (Some c) (lit ''.1f'') = Inr ()"
  by (simp add: py_format_def spec_float_valido_def lit_def eh_alinhamento_def eh_digito_def)

lemma formato_confianca: "conf_str confianca = Inr ()"
  by (cases confianca) (simp_all add: conf_str_def py_format_2f)

lemma py_format_finalizar: "\<exists>e. py_format c spec_finalizar = Inl e"
  by (cases c) (simp_all add: py_format_def spec_finalizar_invalido spec_finalizar_ne)

lemma strip_ola_mundo: "strip (lit ''ola mundo'') = lit ''ola mundo''"
  by (simp add: strip_def lit_def py_isspace_def)

lemma lit_ola_mundo_ne: "lit ''ola mundo'' \<noteq> []"
  by (simp add: lit_def)

text \<open>The flush never returns a text: with a non-empty text the log line raises, with an
  empty one the result is \<open>None\<close>.\<close>

lemma finalizar_sessao_com_texto:
  "strip (case r_text res of None \<Rightarrow> [] | Some t \<Rightarrow> t) \<noteq> [] \<Longrightarrow>
   \<exists>e. finalizar_sessao m res = Inl e"
  using py_format_finalizar [of "calcular_confianca_media res"]
  by (auto simp: finalizar_sessao_def Let_def)

lemma finalizar_sessao_sem_texto:
  "strip (case r_text res of None \<Rightarrow> [] | Some t \<Rightarrow> t) = [] \<Longrightarrow> finalizar_sessao m res = Inr None"
  by (simp add: finalizar_sessao_def Let_def)

lemma finalizar_sessao_nunca_texto: "finalizar_sessao m res \<noteq> Inr (Some tc)"
proof (cases "strip (case r_text res of None \<Rightarrow> [] | Some t \<Rightarrow> t) = []")
  case True
  then show ?thesis by (simp add: finalizar_sessao_sem_texto)
next
  case False
  then show ?thesis using finalizar_sessao_com_texto [of res m] by auto
qed

lemma finalizar_ola_mundo:
  "finalizar_sessao m resultado_ola_mundo = Inl (ValueError (lit ''Invalid format specifier''))"
  by (simp add: finalizar_sessao_def resultado_ola_mundo_def calcular_exemplo strip_ola_mundo
      lit_ola_mundo_ne py_format_def spec_finalizar_invalido)

lemma finalizar_vazio: "finalizar_sessao m resultado_vazio = Inr None"
  by (simp add: finalizar_sessao_def resultado_vazio_def strip_def)

text \<open>In the teardown of the handler no request is ever issued: the flush gives no text.\<close>

lemma teardown_sem_envio:
  "pedidos_fim (websocket_stt cfg sid amb) = ft_pedidos (bloco_try cfg sid amb)"
  using finalizar_sessao_nunca_texto
  by (auto simp: websocket_stt_def Let_def split: option.splits sum.splits prod.splits)

text \<open>
  C1. \<open>finalizar_sessao\<close> on a flushed text that is not empty: the recognizer's final
  result is \<open>ola mundo\<close>, once with word-level detail (confidence 0.7) and once without
  (confidence \<open>None\<close>). In both cases the call raises instead of returning the pair of
  text and confidence. In a session whose peer disconnects with that text pending, the
  exception leaves the handler and no request is sent downstream.
\<close>

theorem finalizar_sessao_levanta:
  "finalizar_sessao (novo_motor (lit ''s1'')) resultado_ola_mundo
     = Inl (ValueError (lit ''Invalid format specifier''))
   \<and> finalizar_sessao (novo_motor (lit ''s1''))
        \<lparr>r_text = Some (lit ''ola mundo''), r_partial = None, r_result = None\<rparr>
     = Inl (TypeError (lit ''unsupported format string passed to NoneType.__format__''))
   \<and> propagada (websocket_stt cfg_exemplo (lit ''s1'') amb_desconexao)
     = Some (ValueError (lit ''Invalid format specifier''))
   \<and> pedidos_fim (websocket_stt cfg_exemplo (lit ''s1'') amb_desconexao) = []"
  by (simp add: finalizar_ola_mundo websocket_stt_def bloco_try_def bloco_except_def
      amb_desconexao_def amb_exemplo_def)
    (simp add: finalizar_sessao_def strip_ola_mundo lit_ola_mundo_ne py_format_def
      spec_finalizar_ne calcular_confianca_media_def)

section \<open>Properties of the orchestrator\<close>



lemma nao_deve_enviar_oi: "\<not> deve_enviar (lit ''oi'') (Some 0.9)"
  by (simp add: deve_enviar_def strip_def lit_def py_isspace_def)

lemma deve_enviar_ola_mundo: "deve_enviar (lit ''ola mundo'') None"
  by (simp add: deve_enviar_def strip_def lit_def py_isspace_def)

lemma despacho_sem_corpo:
  "ResultadoDespachoGlossa url sent status None dur err =
     Inr \<lparr>target_url = url, request_sent = sent, response_status = status,
          response_body = None, duration_ms = dur, error = err\<rparr>"
  by (simp add: ResultadoDespachoGlossa_def valida_response_body_def)

lemma enviar_filtrado:
  "\<not> deve_enviar texto confianca \<Longrightarrow>
   enviar_para_glossa o0 texto confianca n =
     (o0\<lparr>total_envios := total_envios o0 + 1\<rparr>,
      Inr \<lparr>target_url = url_glossa o0, request_sent = False, response_status = None,
           response_body = None, duration_ms = None, error = Some msg_filtrada\<rparr>, [])"
  by (simp add: enviar_para_glossa_def despacho_sem_corpo)

lemma enviar_levanta:
  "deve_enviar texto confianca \<Longrightarrow> post n = Levanta e \<Longrightarrow>
   enviar_para_glossa o0 texto confianca n =
     (o0\<lparr>total_envios := total_envios o0 + 1, envios_falha := envios_falha o0 + 1\<rparr>,
      Inr (if eh_Timeout e then
             \<lparr>target_url = url_glossa o0, request_sent = True, response_status = None,
              response_body = None, duration_ms = Some ((t_fim n - t_inicio n) * 1000),
              error = Some (msg_timeout (timeout o0))\<rparr>
           else if eh_RequestException e then
             \<lparr>target_url = url_glossa o0, request_sent = False, response_status = None,
              response_body = None, duration_ms = Some ((t_fim n - t_inicio n) * 1000),
              error = Some (msg_erro_rede e)\<rparr>
           else
             \<lparr>target_url = url_glossa o0, request_sent = False, response_status = None,
              response_body = None, duration_ms = None,
              error = Some (msg_erro_inesperado e)\<rparr>),
      [pedido_de o0 texto confianca])"
  by (simp add: enviar_para_glossa_def formato_confianca tentativa_envio_def despacho_sem_corpo
      pedido_de_def)

lemma enviar_resposta:
  assumes d: "deve_enviar texto confianca" and p: "post n = Responde resp"
  shows "\<exists>o1 r. enviar_para_glossa o0 texto confianca n
                  = (o1, Inr r, [pedido_de o0 texto confianca])"
proof -
  obtain o2 x where t: "tentativa_envio (o0\<lparr>total_envios := total_envios o0 + 1\<rparr>) n = (o2, x)"
    by (cases "tentativa_envio (o0\<lparr>total_envios := total_envios o0 + 1\<rparr>) n") auto
  show ?thesis
  proof (cases x)
    case (Inr r)
    then show ?thesis using d t
      by (simp add: enviar_para_glossa_def formato_confianca pedido_de_def)
  next
    case (Inl e)
    then show ?thesis using d t
      by (simp add: enviar_para_glossa_def formato_confianca pedido_de_def despacho_sem_corpo
          Let_def)
  qed
qed

lemma enviar_para_glossa_total:
  "\<exists>o1 r ps. enviar_para_glossa o0 texto confianca n = (o1, Inr r, ps)"
proof (cases "deve_enviar texto confianca")
  case False
  then show ?thesis by (simp add: enviar_filtrado)
next
  case True
  show ?thesis
  proof (cases "post n")
    case (Responde resp)
    then show ?thesis using True enviar_resposta [of texto confianca n resp o0] by blast
  next
    case (Levanta e)
    then show ?thesis using True by (simp add: enviar_levanta)
  qed
qed

text \<open>
  C7. When \<open>deve_enviar\<close> rejects the text, \<open>enviar_para_glossa\<close> counts the attempt,
  issues no request, and returns an outcome with \<open>request_sent\<close> false, the error text
  \<open>Transcricao filtrada (texto muito curto ou confianca baixa)\<close> (written with its cedillas
  and tilde), and no status, body or duration; the success and failure counters stay as
  they were.
\<close>

theorem enviar_para_glossa_filtrado:
  "\<not> deve_enviar texto confianca \<Longrightarrow>
   (\<exists>o1 r. enviar_para_glossa o0 texto confianca n = (o1, Inr r, [])
      \<and> total_envios o1 = total_envios o0 + 1
      \<and> envios_sucesso o1 = envios_sucesso o0 \<and> envios_falha o1 = envios_falha o0
      \<and> request_sent r = False
      \<and> error r = Some (lit ''Transcri'' @ [231, 227] @ lit ''o filtrada (texto muito curto ou confian''
                 @ [231] @ lit ''a baixa)'')
      \<and> response_status r = None \<and> response_body r = None \<and> duration_ms r = None)"
  by (simp add: enviar_filtrado msg_filtrada_def)

theorem enviar_para_glossa_filtrado_witness:
  "\<not> deve_enviar (lit ''oi'') (Some 0.9)
   \<and> (\<exists>o1 r. enviar_para_glossa orq_exemplo (lit ''oi'') (Some 0.9)
                (rede_exemplo 0.05 (Responde (resposta_exemplo 200 (JObj [])))) = (o1, Inr r, [])
        \<and> total_envios o1 = 1 \<and> envios_sucesso o1 = 0 \<and> envios_falha o1 = 0
        \<and> request_sent r = False
        \<and> error r = Some
             [84, 114, 97, 110, 115, 99, 114, 105, 231, 227, 111, 32, 102, 105, 108, 116,
              114, 97, 100, 97, 32, 40, 116, 101, 120, 116, 111, 32, 109, 117, 105, 116,
              111, 32, 99, 117, 114, 116, 111, 32, 111, 117, 32, 99, 111, 110, 102, 105,
              97, 110, 231, 97, 32, 98, 97, 105, 120, 97, 41]
        \<and> response_status r = None \<and> response_body r = None \<and> duration_ms r = None)"
  using enviar_para_glossa_filtrado [OF nao_deve_enviar_oi, of orq_exemplo
      "rede_exemplo 0.05 (Responde (resposta_exemplo 200 (JObj [])))"] nao_deve_enviar_oi
  by (simp add: lit_def orq_exemplo_def cfg_exemplo_def novo_orquestrador_def)

text \<open>
  C6. For a call that passes the filter: when the request times out, the outcome has
  \<open>request_sent\<close> true, no status, and the error text \<open>Timeout ao contatar servico de
  glossa (>Ns)\<close> with the configured timeout for N; when the request fails with another
  transport exception, the outcome has \<open>request_sent\<close> false and the error text \<open>Erro de
  rede ao contatar servico de glossa: \<close> followed by the message of the exception. In both
  cases the failure counter goes up by one.
\<close>

theorem enviar_para_glossa_falha_transporte:
  "(deve_enviar texto confianca \<and> post n = Levanta e \<and> eh_Timeout e \<longrightarrow>
      (\<exists>o1 r ps. enviar_para_glossa o0 texto confianca n = (o1, Inr r, ps)
         \<and> envios_falha o1 = envios_falha o0 + 1
         \<and> request_sent r = True \<and> response_status r = None
         \<and> error r = Some (lit ''Timeout ao contatar servi'' @ [231] @ lit ''o de glossa (>''
                 @ str_int (timeout o0) @ lit ''s)'')))
   \<and> (deve_enviar texto confianca \<and> post n = Levanta e \<and> eh_RequestException e
        \<and> \<not> eh_Timeout e \<longrightarrow>
      (\<exists>o1 r ps. enviar_para_glossa o0 texto confianca n = (o1, Inr r, ps)
         \<and> envios_falha o1 = envios_falha o0 + 1
         \<and> request_sent r = False
         \<and> error r = Some (lit ''Erro de rede ao contatar servi'' @ [231] @ lit ''o de glossa: ''
                 @ str_exc e)))
   \<and> (deve_enviar texto confianca \<and> post n = Levanta (RequestException m) \<longrightarrow>
      (\<exists>o1 r ps. enviar_para_glossa o0 texto confianca n = (o1, Inr r, ps)
         \<and> envios_falha o1 = envios_falha o0 + 1
         \<and> request_sent r = False
         \<and> error r = Some (lit ''Erro de rede ao contatar servi'' @ [231] @ lit ''o de glossa: ''
                 @ m)))"
  by (simp add: enviar_levanta msg_timeout_def msg_erro_rede_def)

theorem enviar_para_glossa_falha_transporte_witness:
  "deve_enviar (lit ''ola mundo'') None
   \<and> (\<exists>o1 r ps. enviar_para_glossa orq_exemplo (lit ''ola mundo'') None
        (rede_exemplo 10.2 (Levanta (Timeout (lit ''Read timed out'')))) = (o1, Inr r, ps)
      \<and> envios_falha o1 = 1 \<and> request_sent r = True \<and> response_status r = None
      \<and> error r = Some
           [84, 105, 109, 101, 111, 117, 116, 32, 97, 111, 32, 99, 111, 110, 116, 97,
            116, 97, 114, 32, 115, 101, 114, 118, 105, 231, 111, 32, 100, 101, 32, 103,
            108, 111, 115, 115, 97, 32, 40, 62, 49, 48, 115, 41])
   \<and> (\<exists>o1 r ps. enviar_para_glossa orq_exemplo (lit ''ola mundo'') None
        (rede_exemplo 0.01 (Levanta (RequestException (lit ''Connection refused'')))) = (o1, Inr r, ps)
      \<and> envios_falha o1 = 1 \<and> request_sent r = False
      \<and> error r = Some
           [69, 114, 114, 111, 32, 100, 101, 32, 114, 101, 100, 101, 32, 97, 111, 32, 99,
            111, 110, 116, 97, 116, 97, 114, 32, 115, 101, 114, 118, 105, 231, 111, 32,
            100, 101, 32, 103, 108, 111, 115, 115, 97, 58, 32, 67, 111, 110, 110, 101,
            99, 116, 105, 111, 110, 32, 114, 101, 102, 117, 115, 101, 100])"
  using enviar_para_glossa_falha_transporte [of "lit ''ola mundo''" None
      "rede_exemplo 10.2 (Levanta (Timeout (lit ''Read timed out'')))"
      "Timeout (lit ''Read timed out'')" orq_exemplo "lit ''Connection refused''"]
    enviar_para_glossa_falha_transporte [of "lit ''ola mundo''" None
      "rede_exemplo 0.01 (Levanta (RequestException (lit ''Connection refused'')))"
      "RequestException (lit ''Connection refused'')" orq_exemplo "lit ''Connection refused''"]
    deve_enviar_ola_mundo
  by (simp add: rede_exemplo_def orq_exemplo_def cfg_exemplo_def novo_orquestrador_def
      lit_def str_int_def digitos.simps)

lemma enviar_excecao_na_resposta:
  assumes d: "deve_enviar texto confianca"
    and t: "tentativa_envio (o0\<lparr>total_envios := total_envios o0 + 1\<rparr>) n = (o2, Inl e)"
    and ne: "\<not> eh_RequestException e"
  shows "enviar_para_glossa o0 texto confianca n =
     (o2\<lparr>envios_falha := envios_falha o2 + 1\<rparr>,
      Inr \<lparr>target_url = url_glossa o0, request_sent = False, response_status = None,
           response_body = None, duration_ms = None,
           error = Some (msg_erro_inesperado e)\<rparr>,
      [pedido_de o0 texto confianca])"
proof -
  have "\<not> eh_Timeout e" using ne by (cases e) simp_all
  then show ?thesis using d t ne
    by (simp add: enviar_para_glossa_def formato_confianca pedido_de_def despacho_sem_corpo
        Let_def)
qed

lemma tentativa_corpo_invalido:
  "post n = Responde resp \<Longrightarrow> 200 \<le> status_code resp \<Longrightarrow> status_code resp < 300 \<Longrightarrow>
   corpo_json resp = Inr j \<Longrightarrow> valida_response_body (Some j) = Inl e \<Longrightarrow>
   tentativa_envio o1 n =
     (o1\<lparr>latencia_total_ms := latencia_total_ms o1 + (t_fim n - t_inicio n) * 1000,
         envios_sucesso := envios_sucesso o1 + 1\<rparr>, Inl e)"
  by (simp add: tentativa_envio_def Let_def py_format_1f ResultadoDespachoGlossa_def)

lemma valida_response_body_excecao:
  "valida_response_body b = Inl e \<Longrightarrow>
   e = ValidationError (lit ''response_body: Input should be a valid dictionary'')"
  by (auto simp: valida_response_body_def split: option.splits json.splits)

text \<open>
  C5. Whatever the text, the confidence and the behaviour of the request (a response of
  any status, a timeout, a transport failure, any other exception, also one raised while
  the response is handled), \<open>enviar_para_glossa\<close> returns an outcome and raises nothing.
  An exception of \<open>requests.post\<close> that is no transport exception, and an exception raised
  in the handling of the response (the validation of the outcome rejecting the body of a
  2xx response), end up in the outcome: \<open>request_sent\<close> false, no status, and the error
  text \<open>Erro inesperado ao enviar para glossa: \<close> followed by the message of the exception.
\<close>

theorem enviar_para_glossa_nunca_levanta:
  "(\<exists>o1 r ps. enviar_para_glossa o0 texto confianca n = (o1, Inr r, ps))
   \<and> (deve_enviar texto confianca \<and> post n = Levanta e \<and> \<not> eh_RequestException e \<longrightarrow>
        (\<exists>o1 r ps. enviar_para_glossa o0 texto confianca n = (o1, Inr r, ps)
           \<and> request_sent r = False \<and> response_status r = None
           \<and> error r = Some (lit ''Erro inesperado ao enviar para glossa: '' @ str_exc e)))
   \<and> (deve_enviar texto confianca \<and> post n = Responde resp
        \<and> 200 \<le> status_code resp \<and> status_code resp < 300
        \<and> corpo_json resp = Inr j \<and> valida_response_body (Some j) = Inl e' \<longrightarrow>
        (\<exists>o1 r ps. enviar_para_glossa o0 texto confianca n = (o1, Inr r, ps)
           \<and> request_sent r = False \<and> response_status r = None
           \<and> error r = Some (lit ''Erro inesperado ao enviar para glossa: '' @ str_exc e')))
   \<and> (deve_enviar texto confianca
        \<and> tentativa_envio (o0\<lparr>total_envios := total_envios o0 + 1\<rparr>) n = (o2, Inl e'')
        \<and> \<not> eh_RequestException e'' \<longrightarrow>
        (\<exists>o1 r ps. enviar_para_glossa o0 texto confianca n = (o1, Inr r, ps)
           \<and> request_sent r = False \<and> response_status r = None
           \<and> error r = Some (lit ''Erro inesperado ao enviar para glossa: '' @ str_exc e'')))"
proof (intro conjI impI)
  show "\<exists>o1 r ps. enviar_para_glossa o0 texto confianca n = (o1, Inr r, ps)"
    by (rule enviar_para_glossa_total)
next
  assume h: "deve_enviar texto confianca \<and> post n = Levanta e \<and> \<not> eh_RequestException e"
  then have "\<not> eh_Timeout e" by (cases e) simp_all
  then show "\<exists>o1 r ps. enviar_para_glossa o0 texto confianca n = (o1, Inr r, ps)
           \<and> request_sent r = False \<and> response_status r = None
           \<and> error r = Some (lit ''Erro inesperado ao enviar para glossa: '' @ str_exc e)"
    using h by (simp add: enviar_levanta msg_erro_inesperado_def)
next
  assume h: "deve_enviar texto confianca \<and> post n = Responde resp
        \<and> 200 \<le> status_code resp \<and> status_code resp < 300
        \<and> corpo_json resp = Inr j \<and> valida_response_body (Some j) = Inl e'"
  then have t: "tentativa_envio (o0\<lparr>total_envios := total_envios o0 + 1\<rparr>) n =
     ((o0\<lparr>total_envios := total_envios o0 + 1\<rparr>)
        \<lparr>latencia_total_ms := latencia_total_ms (o0\<lparr>total_envios := total_envios o0 + 1\<rparr>)
             + (t_fim n - t_inicio n) * 1000,
         envios_sucesso := envios_sucesso (o0\<lparr>total_envios := total_envios o0 + 1\<rparr>) + 1\<rparr>,
      Inl e')"
    by (simp add: tentativa_corpo_invalido)
  have "e' = ValidationError (lit ''response_body: Input should be a valid dictionary'')"
    using h valida_response_body_excecao by blast
  then have ne: "\<not> eh_RequestException e'" by simp
  show "\<exists>o1 r ps. enviar_para_glossa o0 texto confianca n = (o1, Inr r, ps)
           \<and> request_sent r = False \<and> response_status r = None
           \<and> error r = Some (lit ''Erro inesperado ao enviar para glossa: '' @ str_exc e')"
    using h enviar_excecao_na_resposta [OF _ t ne]
    by (simp add: msg_erro_inesperado_def)
next
  assume h: "deve_enviar texto confianca
        \<and> tentativa_envio (o0\<lparr>total_envios := total_envios o0 + 1\<rparr>) n = (o2, Inl e'')
        \<and> \<not> eh_RequestException e''"
  then show "\<exists>o1 r ps. enviar_para_glossa o0 texto confianca n = (o1, Inr r, ps)
           \<and> request_sent r = False \<and> response_status r = None
           \<and> error r = Some (lit ''Erro inesperado ao enviar para glossa: '' @ str_exc e'')"
    using enviar_excecao_na_resposta [of texto confianca o0 n o2 e'']
    by (simp add: msg_erro_inesperado_def)
qed

lemma tentativa_exemplo_lista:
  "tentativa_envio (orq_exemplo\<lparr>total_envios := total_envios orq_exemplo + 1\<rparr>)
      (rede_exemplo 0.05 (Responde (resposta_exemplo 200 (JArr [JNum 1, JNum 2]))))
   = (orq_exemplo\<lparr>total_envios := 1, latencia_total_ms := 50, envios_sucesso := 1\<rparr>,
      Inl (ValidationError (lit ''response_body: Input should be a valid dictionary'')))"
  by (simp add: tentativa_envio_def rede_exemplo_def resposta_exemplo_def py_format_1f
      ResultadoDespachoGlossa_def valida_response_body_def orq_exemplo_def
      novo_orquestrador_def Let_def)

theorem enviar_para_glossa_nunca_levanta_witness:
  "deve_enviar (lit ''ola mundo'') None
   \<and> \<not> eh_RequestException (RuntimeError (lit ''falha''))
   \<and> (\<exists>o1 r ps. enviar_para_glossa orq_exemplo (lit ''ola mundo'') None
         (rede_exemplo 0.01 (Levanta (RuntimeError (lit ''falha'')))) = (o1, Inr r, ps)
       \<and> request_sent r = False \<and> response_status r = None
       \<and> error r = Some
            [69, 114, 114, 111, 32, 105, 110, 101, 115, 112, 101, 114, 97, 100, 111, 32,
             97, 111, 32, 101, 110, 118, 105, 97, 114, 32, 112, 97, 114, 97, 32, 103, 108,
             111, 115, 115, 97, 58, 32, 102, 97, 108, 104, 97])
   \<and> post (rede_exemplo 0.05 (Responde (resposta_exemplo 200 (JArr [JNum 1, JNum 2]))))
       = Responde (resposta_exemplo 200 (JArr [JNum 1, JNum 2]))
   \<and> status_code (resposta_exemplo 200 (JArr [JNum 1, JNum 2])) = 200
   \<and> corpo_json (resposta_exemplo 200 (JArr [JNum 1, JNum 2])) = Inr (JArr [JNum 1, JNum 2])
   \<and> valida_response_body (Some (JArr [JNum 1, JNum 2]))
       = Inl (ValidationError (lit ''response_body: Input should be a valid dictionary''))
   \<and> tentativa_envio (orq_exemplo\<lparr>total_envios := total_envios orq_exemplo + 1\<rparr>)
         (rede_exemplo 0.05 (Responde (resposta_exemplo 200 (JArr [JNum 1, JNum 2]))))
       = (orq_exemplo\<lparr>total_envios := 1, latencia_total_ms := 50, envios_sucesso := 1\<rparr>,
          Inl (ValidationError (lit ''response_body: Input should be a valid dictionary'')))
   \<and> (\<exists>o1 r ps. enviar_para_glossa orq_exemplo (lit ''ola mundo'') None
         (rede_exemplo 0.05 (Responde (resposta_exemplo 200 (JArr [JNum 1, JNum 2]))))
           = (o1, Inr r, ps)
       \<and> request_sent r = False \<and> response_status r = None
       \<and> error r = Some
            [69, 114, 114, 111, 32, 105, 110, 101, 115, 112, 101, 114, 97, 100, 111, 32,
             97, 111, 32, 101, 110, 118, 105, 97, 114, 32, 112, 97, 114, 97, 32, 103, 108,
             111, 115, 115, 97, 58, 32, 114, 101, 115, 112, 111, 110, 115, 101, 95, 98,
             111, 100, 121, 58, 32, 73, 110, 112, 117, 116, 32, 115, 104, 111, 117, 108,
             100, 32, 98, 101, 32, 97, 32, 118, 97, 108, 105, 100, 32, 100, 105, 99, 116,
             105, 111, 110, 97, 114, 121])"
  using enviar_para_glossa_nunca_levanta [of orq_exemplo "lit ''ola mundo''" None
      "rede_exemplo 0.01 (Levanta (RuntimeError (lit ''falha'')))" "RuntimeError (lit ''falha'')"
      "resposta_exemplo 200 (JObj [])" "JObj []"
      "ValidationError (lit ''response_body: Input should be a valid dictionary'')"
      "orq_exemplo\<lparr>total_envios := 1, latencia_total_ms := 50, envios_sucesso := 1\<rparr>"
      "ValidationError (lit ''response_body: Input should be a valid dictionary'')"]
    enviar_para_glossa_nunca_levanta [of orq_exemplo "lit ''ola mundo''" None
      "rede_exemplo 0.05 (Responde (resposta_exemplo 200 (JArr [JNum 1, JNum 2])))"
      "RuntimeError (lit ''falha'')"
      "resposta_exemplo 200 (JArr [JNum 1, JNum 2])" "JArr [JNum 1, JNum 2]"
      "ValidationError (lit ''response_body: Input should be a valid dictionary'')"
      "orq_exemplo\<lparr>total_envios := 1, latencia_total_ms := 50, envios_sucesso := 1\<rparr>"
      "ValidationError (lit ''response_body: Input should be a valid dictionary'')"]
    deve_enviar_ola_mundo tentativa_exemplo_lista
  by (simp add: rede_exemplo_def resposta_exemplo_def valida_response_body_def lit_def)

text \<open>
  C2. Two dispatch calls on a fresh orchestrator: the first gets an HTTP 500 response after
  100 ms, the second an HTTP 200 response after 50 ms. The latency of the failed call is
  in the running total: the reported average over the one successful call is 150 ms, not
  the 50 ms that call took.
\<close>

theorem latencia_media_conta_respostas_de_erro:
  "latencia_media_ms (obter_estatisticas (sequencia_envios orq_exemplo
      [(lit ''ola mundo'', None, rede_exemplo 0.1 (Responde (resposta_exemplo 500 (JObj [])))),
       (lit ''ola mundo'', None, rede_exemplo 0.05 (Responde (resposta_exemplo 200 (JObj []))))]))
     = 150
   \<and> envios_sucesso (sequencia_envios orq_exemplo
      [(lit ''ola mundo'', None, rede_exemplo 0.1 (Responde (resposta_exemplo 500 (JObj [])))),
       (lit ''ola mundo'', None, rede_exemplo 0.05 (Responde (resposta_exemplo 200 (JObj []))))])
     = 1"
  by (simp add: sequencia_envios_def enviar_para_glossa_def deve_enviar_ola_mundo
      formato_confianca py_format_1f tentativa_envio_def rede_exemplo_def resposta_exemplo_def
      ResultadoDespachoGlossa_def valida_response_body_def orq_exemplo_def
      novo_orquestrador_def obter_estatisticas_def py_round1_def py_round_def Let_def)

text \<open>
  C10. One dispatch call on a fresh orchestrator whose request gets an HTTP 200 response
  with the JSON body \<open>[1, 2]\<close>: the success counter is incremented, then the outcome is
  rejected by the validation of \<open>response_body\<close>, the handler of unexpected exceptions
  increments the failure counter too, and successes plus failures exceed the attempts.
\<close>

theorem contadores_excedem_total:
  "enviar_para_glossa orq_exemplo (lit ''ola mundo'') None
      (rede_exemplo 0.05 (Responde (resposta_exemplo 200 (JArr [JNum 1, JNum 2]))))
   = (orq_exemplo\<lparr>total_envios := 1, latencia_total_ms := 50, envios_sucesso := 1,
                   envios_falha := 1\<rparr>,
      Inr \<lparr>target_url = url_glossa orq_exemplo, request_sent = False, response_status = None,
           response_body = None, duration_ms = None,
           error = Some (msg_erro_inesperado
             (ValidationError (lit ''response_body: Input should be a valid dictionary'')))\<rparr>,
      [pedido_de orq_exemplo (lit ''ola mundo'') None])
   \<and> \<not> (envios_sucesso (sequencia_envios orq_exemplo
             [(lit ''ola mundo'', None,
               rede_exemplo 0.05 (Responde (resposta_exemplo 200 (JArr [JNum 1, JNum 2]))))])
         + envios_falha (sequencia_envios orq_exemplo
             [(lit ''ola mundo'', None,
               rede_exemplo 0.05 (Responde (resposta_exemplo 200 (JArr [JNum 1, JNum 2]))))])
         \<le> total_envios (sequencia_envios orq_exemplo
             [(lit ''ola mundo'', None,
               rede_exemplo 0.05 (Responde (resposta_exemplo 200 (JArr [JNum 1, JNum 2]))))]))"
  by (simp add: sequencia_envios_def enviar_para_glossa_def deve_enviar_ola_mundo
      formato_confianca py_format_1f tentativa_envio_def rede_exemplo_def resposta_exemplo_def
      ResultadoDespachoGlossa_def valida_response_body_def orq_exemplo_def
      novo_orquestrador_def pedido_de_def Let_def)

section \<open>Properties of the gateway\<close>

text \<open>A pass of the loop sends nothing, or one final message, or one partial message; the
  partial only when the interval has elapsed, and then the instant is recorded.\<close>

lemma passo_laco_enviadas:
  "passo_laco cfg it s = (s', x) \<Longrightarrow>
   (enviadas s' = enviadas s \<and> ultima_emissao_parcial s' = ultima_emissao_parcial s)
   \<or> (\<exists>t c d. enviadas s' = enviadas s @ [TranscricaoFinal t c d]
        \<and> ultima_emissao_parcial s' = ultima_emissao_parcial s)
   \<or> (\<exists>t c. enviadas s' = enviadas s @ [TranscricaoParcial t c]
        \<and> INTERVALO_EMISSAO_PARCIAL cfg \<le> agora it - ultima_emissao_parcial s
        \<and> ultima_emissao_parcial s' = agora it)"
  by (auto simp: passo_laco_def Let_def MensagemTranscricaoFinal_def MensagemTranscricaoParcial_def
      split: recepcao.splits if_splits prod.splits sum.splits option.splits)

lemma emite_parcial_passo:
  "passo_laco cfg it s = (s', x) \<Longrightarrow>
   (emite_parcial cfg it s \<longrightarrow>
      INTERVALO_EMISSAO_PARCIAL cfg \<le> agora it - ultima_emissao_parcial s
      \<and> ultima_emissao_parcial s' = agora it
      \<and> length (filter eh_parcial (enviadas s')) = Suc (length (filter eh_parcial (enviadas s))))
   \<and> (\<not> emite_parcial cfg it s \<longrightarrow>
      ultima_emissao_parcial s' = ultima_emissao_parcial s
      \<and> length (filter eh_parcial (enviadas s')) = length (filter eh_parcial (enviadas s)))"
  using passo_laco_enviadas [of cfg it s s' x]
  by (auto simp: emite_parcial_def)

lemma espacados_cauda: "espacados d (x # ts) \<Longrightarrow> espacados d ts"
  by (cases ts) simp_all

lemma tempos_parciais_espacados:
  "espacados (INTERVALO_EMISSAO_PARCIAL cfg) (ultima_emissao_parcial s # tempos_parciais cfg its s)"
proof (induction its arbitrary: s)
  case Nil
  show ?case by simp
next
  case (Cons it its)
  obtain s' x where p: "passo_laco cfg it s = (s', x)"
    by (cases "passo_laco cfg it s") auto
  note e = emite_parcial_passo [OF p]
  show ?case
  proof (cases x)
    case None
    have ih: "espacados (INTERVALO_EMISSAO_PARCIAL cfg)
                (ultima_emissao_parcial s' # tempos_parciais cfg its s')"
      by (rule Cons.IH)
    show ?thesis
    proof (cases "emite_parcial cfg it s")
      case True
      then show ?thesis using p None e ih by simp
    next
      case False
      then show ?thesis using p None e ih by simp
    qed
  next
    case (Some ex)
    then show ?thesis using p e by (cases "emite_parcial cfg it s") simp_all
  qed
qed

lemma laco_conta_parciais:
  "length (filter eh_parcial (enviadas (fst (laco cfg its s))))
     = length (filter eh_parcial (enviadas s)) + length (tempos_parciais cfg its s)"
proof (induction its arbitrary: s)
  case Nil
  show ?case by simp
next
  case (Cons it its)
  obtain s' x where p: "passo_laco cfg it s = (s', x)"
    by (cases "passo_laco cfg it s") auto
  note e = emite_parcial_passo [OF p]
  show ?case
  proof (cases x)
    case None
    then show ?thesis using p e Cons.IH [of s'] by (cases "emite_parcial cfg it s") simp_all
  next
    case (Some ex)
    then show ?thesis using p e by (cases "emite_parcial cfg it s") simp_all
  qed
qed

lemma espacados_todos:
  "0 \<le> d \<Longrightarrow> espacados d (x # ts) \<Longrightarrow> \<forall>t\<in>set ts. d \<le> t - x"
proof (induction ts arbitrary: x)
  case Nil
  show ?case by simp
next
  case (Cons a ts)
  from Cons.prems have ax: "d \<le> a - x" and r: "espacados d (a # ts)" by simp_all
  from Cons.IH [OF Cons.prems(1) r] have "\<forall>t\<in>set ts. d \<le> t - a" .
  then have "\<forall>t\<in>set ts. d \<le> t - x" using ax Cons.prems(1) by fastforce
  then show ?case using ax by simp
qed

lemma espacados_pares:
  "0 \<le> d \<Longrightarrow> espacados d ts \<Longrightarrow> i < j \<Longrightarrow> j < length ts \<Longrightarrow> d \<le> ts ! j - ts ! i"
proof (induction ts arbitrary: i j)
  case Nil
  then show ?case by simp
next
  case (Cons x ts)
  obtain j' where j: "j = Suc j'" using Cons.prems(3) by (cases j) auto
  have jl: "j' < length ts" using Cons.prems(4) j by simp
  show ?case
  proof (cases i)
    case 0
    have "ts ! j' \<in> set ts" using jl by simp
    then show ?thesis using espacados_todos [OF Cons.prems(1) Cons.prems(2)] 0 j by simp
  next
    case (Suc i')
    have "d \<le> ts ! j' - ts ! i'"
      using Cons.IH [OF Cons.prems(1) espacados_cauda [OF Cons.prems(2)], of i' j'] Suc j jl
        Cons.prems(3) by simp
    then show ?thesis using Suc j by simp
  qed
qed

lemma processar_audio_final:
  "strip (case r_text res of None \<Rightarrow> [] | Some t \<Rightarrow> t) \<noteq> [] \<Longrightarrow>
   processar_audio m a (Fronteira res) =
     (m\<lparr>bytes_processados := bytes_processados m + length a,
        transcricoes_finais := transcricoes_finais m + 1\<rparr>,
      Inr (True, strip (case r_text res of None \<Rightarrow> [] | Some t \<Rightarrow> t),
           calcular_confianca_media res))"
  by (simp add: processar_audio_def Let_def formato_confianca)

lemma passo_final_nao_suprimido:
  assumes "recebido it = Recebe a" and "a \<noteq> []" and "reconhecedor it = Fronteira res"
    and t: "strip (case r_text res of None \<Rightarrow> [] | Some t \<Rightarrow> t) \<noteq> []"
    and "valida_confidence (calcular_confianca_media res) = Inr c" and "envio it = None"
  shows "\<exists>s' d. passo_laco cfg it s = (s', None)
     \<and> enviadas s' = enviadas s
          @ [TranscricaoFinal (strip (case r_text res of None \<Rightarrow> [] | Some t \<Rightarrow> t)) c d]"
proof -
  obtain o1 d ps where e: "enviar_para_glossa (orq s)
       (strip (case r_text res of None \<Rightarrow> [] | Some t \<Rightarrow> t))
       (calcular_confianca_media res) (rede_envio it) = (o1, Inr d, ps)"
    using enviar_para_glossa_total by blast
  show ?thesis
    using assms e
    by (simp add: passo_laco_def processar_audio_final MensagemTranscricaoFinal_def)
qed

text \<open>
  C9. In every run of the receive loop, a partial message is sent in a pass only if at
  least \<open>INTERVALO_EMISSAO_PARCIAL\<close> has elapsed since the instant recorded at the last
  partial sent, and that instant is then the pass's; so the instants of the partial
  messages of a run, one per partial message sent, are pairwise at least the interval
  apart (for an interval that is not negative). A final result with a text is sent
  whatever the clock and the throttle say, when its confidence is valid and the channel
  accepts the message.
\<close>

theorem throttle_parciais:
  "espacados (INTERVALO_EMISSAO_PARCIAL cfg) (tempos_parciais cfg its s)
   \<and> length (filter eh_parcial (enviadas (fst (laco cfg its s))))
       = length (filter eh_parcial (enviadas s)) + length (tempos_parciais cfg its s)
   \<and> (passo_laco cfg it s = (s', x) \<and> emite_parcial cfg it s \<longrightarrow>
        INTERVALO_EMISSAO_PARCIAL cfg \<le> agora it - ultima_emissao_parcial s
        \<and> ultima_emissao_parcial s' = agora it)
   \<and> (0 \<le> INTERVALO_EMISSAO_PARCIAL cfg \<and> i < j \<and> j < length (tempos_parciais cfg its s) \<longrightarrow>
        INTERVALO_EMISSAO_PARCIAL cfg
          \<le> tempos_parciais cfg its s ! j - tempos_parciais cfg its s ! i)
   \<and> (recebido it = Recebe a \<and> a \<noteq> [] \<and> reconhecedor it = Fronteira res
        \<and> strip (case r_text res of None \<Rightarrow> [] | Some t \<Rightarrow> t) \<noteq> []
        \<and> valida_confidence (calcular_confianca_media res) = Inr c \<and> envio it = None \<longrightarrow>
        (\<exists>s2 d. passo_laco cfg it s = (s2, None)
           \<and> enviadas s2 = enviadas s
                @ [TranscricaoFinal (strip (case r_text res of None \<Rightarrow> [] | Some t \<Rightarrow> t)) c d]))"
proof (intro conjI impI)
  show e: "espacados (INTERVALO_EMISSAO_PARCIAL cfg) (tempos_parciais cfg its s)"
    using tempos_parciais_espacados [of cfg s its] by (rule espacados_cauda)
  show "length (filter eh_parcial (enviadas (fst (laco cfg its s))))
       = length (filter eh_parcial (enviadas s)) + length (tempos_parciais cfg its s)"
    by (rule laco_conta_parciais)
  {
    assume "passo_laco cfg it s = (s', x) \<and> emite_parcial cfg it s"
    then show "INTERVALO_EMISSAO_PARCIAL cfg \<le> agora it - ultima_emissao_parcial s"
      and "ultima_emissao_parcial s' = agora it"
      using emite_parcial_passo [of cfg it s s' x] by simp_all
  }
  {
    assume "0 \<le> INTERVALO_EMISSAO_PARCIAL cfg \<and> i < j \<and> j < length (tempos_parciais cfg its s)"
    then show "INTERVALO_EMISSAO_PARCIAL cfg
          \<le> tempos_parciais cfg its s ! j - tempos_parciais cfg its s ! i"
      using espacados_pares [OF _ e, of i j] by simp
  }
  {
    assume "recebido it = Recebe a \<and> a \<noteq> [] \<and> reconhecedor it = Fronteira res
        \<and> strip (case r_text res of None \<Rightarrow> [] | Some t \<Rightarrow> t) \<noteq> []
        \<and> valida_confidence (calcular_confianca_media res) = Inr c \<and> envio it = None"
    then show "\<exists>s2 d. passo_laco cfg it s = (s2, None)
           \<and> enviadas s2 = enviadas s
                @ [TranscricaoFinal (strip (case r_text res of None \<Rightarrow> [] | Some t \<Rightarrow> t)) c d]"
      using passo_final_nao_suprimido [of it a res c cfg s] by simp
  }
qed

lemma strip_ola: "strip (lit ''ola'') = lit ''ola''"
  by (simp add: strip_def lit_def py_isspace_def)

lemma lit_ola_ne: "lit ''ola'' \<noteq> []"
  by (simp add: lit_def)

lemma passo_quadro_parcial:
  "passo_laco cfg_exemplo (quadro_parcial t) s =
     (if 0.5 \<le> t - ultima_emissao_parcial s then
        (s\<lparr>motor_stt := (motor_stt s)\<lparr>bytes_processados := bytes_processados (motor_stt s) + 2,
               transcricoes_parciais := transcricoes_parciais (motor_stt s) + 1\<rparr>,
            enviadas := enviadas s @ [TranscricaoParcial (lit ''ola'') None],
            ultima_emissao_parcial := t\<rparr>, None)
      else
        (s\<lparr>motor_stt := (motor_stt s)\<lparr>bytes_processados := bytes_processados (motor_stt s) + 2,
               transcricoes_parciais := transcricoes_parciais (motor_stt s) + 1\<rparr>\<rparr>, None))"
  by (simp add: passo_laco_def quadro_parcial_def processar_audio_def strip_ola lit_ola_ne
      MensagemTranscricaoParcial_def valida_confidence_def cfg_exemplo_def)

lemma emite_quadro_parcial:
  "emite_parcial cfg_exemplo (quadro_parcial t) s = (0.5 \<le> t - ultima_emissao_parcial s)"
  by (simp add: emite_parcial_def passo_quadro_parcial)

lemma valida_exemplo:
  "valida_confidence (calcular_confianca_media resultado_ola_mundo) = Inr (Some (fl 0.7))"
  by (simp add: resultado_ola_mundo_def calcular_exemplo valida_confidence_def fl_07)

lemma texto_ola_mundo:
  "strip (case r_text resultado_ola_mundo of None \<Rightarrow> [] | Some t \<Rightarrow> t) = lit ''ola mundo''"
  by (simp add: resultado_ola_mundo_def strip_ola_mundo)

lemma passo_quadro_final:
  "\<exists>s2 d. passo_laco cfg (quadro_final t) s = (s2, None)
     \<and> enviadas s2 = enviadas s @ [TranscricaoFinal (lit ''ola mundo'') (Some (fl 0.7)) d]"
  using passo_final_nao_suprimido [of "quadro_final t" "[0, 1]" resultado_ola_mundo "Some (fl 0.7)" cfg s]
  by (simp add: quadro_final_def valida_exemplo texto_ola_mundo lit_ola_mundo_ne)

lemma emite_quadro_final: "\<not> emite_parcial cfg (quadro_final t) s"
  using passo_quadro_final [of cfg t s] by (auto simp: emite_parcial_def)

lemma agora_quadro_parcial: "agora (quadro_parcial t) = t"
  by (simp add: quadro_parcial_def)

lemma intervalo_exemplo: "INTERVALO_EMISSAO_PARCIAL cfg_exemplo = 0.5"
  by (simp add: cfg_exemplo_def)

lemma ultima_sessao_exemplo: "ultima_emissao_parcial sessao_exemplo = 0"
  by (simp add: sessao_exemplo_def)

lemma enviadas_sessao_exemplo: "enviadas sessao_exemplo = [SessaoIniciada VERSAO_SERVICO]"
  by (simp add: sessao_exemplo_def)

lemma campos_quadro_final:
  "recebido (quadro_final t) = Recebe [0, 1]"
  "reconhecedor (quadro_final t) = Fronteira resultado_ola_mundo"
  "envio (quadro_final t) = None"
  by (simp_all add: quadro_final_def)

lemma tempos_roteiro:
  "tempos_parciais cfg_exemplo roteiro_exemplo sessao_exemplo = [100, 100.6]"
  by (simp add: roteiro_exemplo_def emite_quadro_parcial passo_quadro_parcial
      ultima_sessao_exemplo agora_quadro_parcial emite_quadro_final
      split: prod.splits option.splits)

theorem throttle_parciais_witness:
  "tempos_parciais cfg_exemplo roteiro_exemplo sessao_exemplo = [100, 100.6]
   \<and> espacados 0.5 (tempos_parciais cfg_exemplo roteiro_exemplo sessao_exemplo)
   \<and> length (filter eh_parcial (enviadas (fst (laco cfg_exemplo roteiro_exemplo sessao_exemplo)))) = 2
   \<and> emite_parcial cfg_exemplo (quadro_parcial 100) sessao_exemplo
   \<and> 0.5 \<le> agora (quadro_parcial 100) - ultima_emissao_parcial sessao_exemplo
   \<and> ultima_emissao_parcial (fst (passo_laco cfg_exemplo (quadro_parcial 100) sessao_exemplo)) = 100
   \<and> 0 \<le> INTERVALO_EMISSAO_PARCIAL cfg_exemplo
   \<and> 1 < length (tempos_parciais cfg_exemplo roteiro_exemplo sessao_exemplo)
   \<and> 0.5 \<le> tempos_parciais cfg_exemplo roteiro_exemplo sessao_exemplo ! 1
             - tempos_parciais cfg_exemplo roteiro_exemplo sessao_exemplo ! 0
   \<and> recebido (quadro_final 100.7) = Recebe [0, 1]
   \<and> reconhecedor (quadro_final 100.7) = Fronteira resultado_ola_mundo
   \<and> strip (case r_text resultado_ola_mundo of None \<Rightarrow> [] | Some t \<Rightarrow> t) \<noteq> []
   \<and> valida_confidence (calcular_confianca_media resultado_ola_mundo) = Inr (Some (fl 0.7))
   \<and> envio (quadro_final 100.7) = None
   \<and> (\<exists>s2 d. passo_laco cfg_exemplo (quadro_final 100.7) sessao_exemplo = (s2, None)
         \<and> enviadas s2 = [SessaoIniciada VERSAO_SERVICO,
                           TranscricaoFinal (lit ''ola mundo'') (Some (fl 0.7)) d])"
  using throttle_parciais [of cfg_exemplo roteiro_exemplo sessao_exemplo "quadro_parcial 100"
      "fst (passo_laco cfg_exemplo (quadro_parcial 100) sessao_exemplo)"
      "snd (passo_laco cfg_exemplo (quadro_parcial 100) sessao_exemplo)" 0 1
      "[0, 1]" resultado_ola_mundo "Some (fl 0.7)"]
    throttle_parciais [of cfg_exemplo roteiro_exemplo sessao_exemplo "quadro_final 100.7"
      "fst (passo_laco cfg_exemplo (quadro_final 100.7) sessao_exemplo)"
      "snd (passo_laco cfg_exemplo (quadro_final 100.7) sessao_exemplo)" 0 1
      "[0, 1]" resultado_ola_mundo "Some (fl 0.7)"]
    tempos_roteiro
  by (simp add: emite_quadro_parcial valida_exemplo texto_ola_mundo lit_ola_mundo_ne
      intervalo_exemplo agora_quadro_parcial ultima_sessao_exemplo enviadas_sessao_exemplo
      campos_quadro_final)

subsection \<open>The first message of a session\<close>

lemma laco_enviadas:
  "laco cfg its s = (s', e) \<Longrightarrow>
   \<exists>ms. enviadas s' = enviadas s @ ms \<and> (\<forall>m\<in>set ms. eh_parcial m \<or> eh_final m)"
proof (induction its arbitrary: s)
  case Nil
  then show ?case by simp
next
  case (Cons it its)
  obtain s1 x where p: "passo_laco cfg it s = (s1, x)"
    by (cases "passo_laco cfg it s") auto
  from passo_laco_enviadas [OF p]
  obtain m1 where m1: "enviadas s1 = enviadas s @ m1" "\<forall>m\<in>set m1. eh_parcial m \<or> eh_final m"
    by fastforce
  show ?case
  proof (cases x)
    case (Some ex)
    then have "s' = s1" using Cons.prems p by simp
    then show ?thesis using m1 by blast
  next
    case None
    then have "laco cfg its s1 = (s', e)" using Cons.prems p by simp
    from Cons.IH [OF this] obtain m2 where
      m2: "enviadas s' = enviadas s1 @ m2" "\<forall>m\<in>set m2. eh_parcial m \<or> eh_final m"
      by blast
    have "enviadas s' = enviadas s @ (m1 @ m2)" using m1 m2 by simp
    moreover have "\<forall>m\<in>set (m1 @ m2). eh_parcial m \<or> eh_final m" using m1 m2 by auto
    ultimately show ?thesis by blast
  qed
qed

lemma parcial_ou_final_nao_inicio:
  "eh_parcial m \<or> eh_final m \<Longrightarrow> \<not> eh_sessao_iniciada m \<and> \<not> eh_erro m"
  by (cases m) simp_all

lemma bloco_try_enviadas:
  "(constroi_motor amb = None \<and> constroi_orquestrador amb = None \<and> envio_inicio amb = None \<longrightarrow>
      (\<exists>ms. ft_enviadas (bloco_try cfg sid amb) = SessaoIniciada VERSAO_SERVICO # ms
         \<and> (\<forall>m\<in>set ms. eh_parcial m \<or> eh_final m)))
   \<and> (\<not> (constroi_motor amb = None \<and> constroi_orquestrador amb = None \<and> envio_inicio amb = None)
        \<longrightarrow> ft_enviadas (bloco_try cfg sid amb) = [])"
proof (intro conjI impI)
  assume h: "constroi_motor amb = None \<and> constroi_orquestrador amb = None \<and> envio_inicio amb = None"
  let ?s0 = "\<lparr>motor_stt = novo_motor sid, orq = novo_orquestrador cfg sid,
              ultima_emissao_parcial = 0,
              enviadas = [SessaoIniciada VERSAO_SERVICO], pedidos = []\<rparr>"
  obtain s e where l: "laco cfg (iteracoes amb) ?s0 = (s, e)"
    by (cases "laco cfg (iteracoes amb) ?s0") auto
  from laco_enviadas [OF l] obtain ms where
    "enviadas s = [SessaoIniciada VERSAO_SERVICO] @ ms" "\<forall>m\<in>set ms. eh_parcial m \<or> eh_final m"
    by auto
  then show "\<exists>ms. ft_enviadas (bloco_try cfg sid amb) = SessaoIniciada VERSAO_SERVICO # ms
         \<and> (\<forall>m\<in>set ms. eh_parcial m \<or> eh_final m)"
    using h l by (simp add: bloco_try_def)
next
  assume "\<not> (constroi_motor amb = None \<and> constroi_orquestrador amb = None \<and> envio_inicio amb = None)"
  then show "ft_enviadas (bloco_try cfg sid amb) = []"
    by (auto simp: bloco_try_def split: option.splits)
qed

lemma mensagens_websocket_stt:
  "mensagens (websocket_stt cfg sid amb) = bloco_except amb (bloco_try cfg sid amb)"
  by (simp add: websocket_stt_def Let_def split: option.splits sum.splits prod.splits)

lemma bloco_except_enviadas:
  "bloco_except amb ft = ft_enviadas ft
   \<or> bloco_except amb ft = ft_enviadas ft @ [Erro (lit ''PROCESSING_ERROR'') (str_exc (ft_excecao ft))]"
  by (simp add: bloco_except_def split: option.splits)

text \<open>
  C8, as amended. In every execution of the handler at most one \<open>session_started\<close> message
  is sent, and no partial or final message is sent unless \<open>session_started\<close> was sent
  first. When the engine and the orchestrator are constructed and the send succeeds,
  \<open>session_started\<close> is the first message and no later message is one. When one of the
  three fails, no \<open>session_started\<close> is sent: the channel carries nothing, or the one
  error message.
\<close>

theorem sessao_iniciada_primeiro:
  "(constroi_motor amb = None \<and> constroi_orquestrador amb = None \<and> envio_inicio amb = None \<longrightarrow>
      (\<exists>ms. mensagens (websocket_stt cfg sid amb) = SessaoIniciada VERSAO_SERVICO # ms
         \<and> (\<forall>m\<in>set ms. \<not> eh_sessao_iniciada m)))
   \<and> (\<not> (constroi_motor amb = None \<and> constroi_orquestrador amb = None \<and> envio_inicio amb = None)
        \<longrightarrow> (mensagens (websocket_stt cfg sid amb) = []
             \<or> (\<exists>e. mensagens (websocket_stt cfg sid amb) = [Erro (lit ''PROCESSING_ERROR'') e])))
   \<and> length (filter eh_sessao_iniciada (mensagens (websocket_stt cfg sid amb))) \<le> 1
   \<and> ((\<exists>m\<in>set (mensagens (websocket_stt cfg sid amb)). eh_parcial m \<or> eh_final m) \<longrightarrow>
        eh_sessao_iniciada (hd (mensagens (websocket_stt cfg sid amb))))"
proof (cases "constroi_motor amb = None \<and> constroi_orquestrador amb = None \<and> envio_inicio amb = None")
  case True
  with bloco_try_enviadas [of amb cfg sid] obtain ms where
    ms: "ft_enviadas (bloco_try cfg sid amb) = SessaoIniciada VERSAO_SERVICO # ms"
        "\<forall>m\<in>set ms. eh_parcial m \<or> eh_final m"
    by blast
  have ni: "\<forall>m\<in>set ms. \<not> eh_sessao_iniciada m"
    using ms(2) parcial_ou_final_nao_inicio by blast
  from bloco_except_enviadas [of amb "bloco_try cfg sid amb"] ms(1)
  obtain r where r: "mensagens (websocket_stt cfg sid amb) = SessaoIniciada VERSAO_SERVICO # r"
      "\<forall>m\<in>set r. \<not> eh_sessao_iniciada m"
  proof (elim disjE)
    assume "bloco_except amb (bloco_try cfg sid amb) = ft_enviadas (bloco_try cfg sid amb)"
    then show ?thesis using ms(1) ni that [of ms] by (simp add: mensagens_websocket_stt)
  next
    assume "bloco_except amb (bloco_try cfg sid amb) = ft_enviadas (bloco_try cfg sid amb)
              @ [Erro (lit ''PROCESSING_ERROR'') (str_exc (ft_excecao (bloco_try cfg sid amb)))]"
    then show ?thesis
      using ms(1) ni
        that [of "ms @ [Erro (lit ''PROCESSING_ERROR'') (str_exc (ft_excecao (bloco_try cfg sid amb)))]"]
      by (simp add: mensagens_websocket_stt)
  qed
  have "filter eh_sessao_iniciada r = []" using r(2) by (simp add: filter_empty_conv)
  then show ?thesis using True r by simp
next
  case False
  with bloco_try_enviadas [of amb cfg sid] have "ft_enviadas (bloco_try cfg sid amb) = []"
    by blast
  with bloco_except_enviadas [of amb "bloco_try cfg sid amb"]
  have "mensagens (websocket_stt cfg sid amb) = []
        \<or> (\<exists>e. mensagens (websocket_stt cfg sid amb) = [Erro (lit ''PROCESSING_ERROR'') e])"
    by (auto simp: mensagens_websocket_stt)
  then show ?thesis using False by auto
qed

theorem sessao_iniciada_primeiro_witness:
  "constroi_motor (amb_exemplo None [quadro_parcial 100]) = None
   \<and> constroi_orquestrador (amb_exemplo None [quadro_parcial 100]) = None
   \<and> envio_inicio (amb_exemplo None [quadro_parcial 100]) = None
   \<and> mensagens (websocket_stt cfg_exemplo (lit ''s1'') (amb_exemplo None [quadro_parcial 100]))
       = [SessaoIniciada VERSAO_SERVICO, TranscricaoParcial (lit ''ola'') None]
   \<and> constroi_motor (amb_exemplo (Some (RuntimeError (lit ''modelo ausente''))) []) \<noteq> None
   \<and> mensagens (websocket_stt cfg_exemplo (lit ''s1'')
         (amb_exemplo (Some (RuntimeError (lit ''modelo ausente''))) []))
       = [Erro (lit ''PROCESSING_ERROR'') (lit ''modelo ausente'')]"
  using sessao_iniciada_primeiro [of "amb_exemplo None [quadro_parcial 100]" cfg_exemplo "lit ''s1''"]
    sessao_iniciada_primeiro [of "amb_exemplo (Some (RuntimeError (lit ''modelo ausente''))) []"
      cfg_exemplo "lit ''s1''"]
  by (simp add: websocket_stt_def bloco_try_def bloco_except_def amb_exemplo_def
      passo_quadro_parcial finalizar_vazio)

text \<open>
  C8 as stated fails: when the construction of the engine raises, the handler sends an
  error message and no \<open>session_started\<close> message at all.
\<close>

theorem sessao_iniciada_ausente:
  "mensagens (websocket_stt cfg_exemplo (lit ''s1'')
      (amb_exemplo (Some (ValueError (lit ''VOSK_MODEL_PATH''))) []))
     = [Erro (lit ''PROCESSING_ERROR'') (lit ''VOSK_MODEL_PATH'')]
   \<and> length (filter eh_sessao_iniciada (mensagens (websocket_stt cfg_exemplo (lit ''s1'')
      (amb_exemplo (Some (ValueError (lit ''VOSK_MODEL_PATH''))) [])))) \<noteq> 1"
  by (simp add: websocket_stt_def bloco_try_def bloco_except_def amb_exemplo_def)

end
